theory Spec2Isabelle
  imports Main "HOL-Library.Char_ord" "HOL-Library.List_Lexorder" "HOL-Library.Product_Lexorder"
begin

section \<open>Date resolution for the haunted-places dataset\<close>

text \<open>
  The repository holds two date scripts. \<^verbatim>\<open>step 4c date.py\<close> (inside \<^verbatim>\<open>Q4fgh.py\<close>) extracts a
  date with a cascade of four regular expressions and a datefinder fallback, then looks
  unresolved locations up on Wikipedia and DBpedia. \<^verbatim>\<open>verifyparallel.py\<close> extracts with
  datefinder and dateparser, validates the year, and looks unresolved locations up with a
  narrow and a broad Wikipedia search through a shared cache and a thread pool.

  Both scripts define \<^verbatim>\<open>extract_date_from_text\<close> and \<^verbatim>\<open>main\<close>. The plain names below are
  those of \<^verbatim>\<open>verifyparallel.py\<close>; the functions of \<^verbatim>\<open>step 4c date.py\<close> carry the suffix
  \<open>_q4\<close>.

  Strings are byte strings; the character classes of Python (digits, whitespace and word
  characters of regular expressions, \<^verbatim>\<open>str.lower\<close>, \<^verbatim>\<open>str.strip\<close>) are modelled on ASCII.
  On text with characters outside ASCII Python's classes are those of Unicode, and the
  model says nothing about such text; \<open>is_ascii\<close> marks the text it covers.
\<close>

subsection \<open>Values\<close>

text \<open>A Python call either raises an exception or returns a value. \<open>Raised\<close> stands for an
  exception of the class \<^verbatim>\<open>Exception\<close>; an interrupt of the process is outside the model.\<close>

datatype 'a outcome = Raised | Returned 'a

text \<open>A cell of an object column of a data frame: missing (\<^verbatim>\<open>NaN\<close>) or a string.\<close>

datatype cell = NaN | Str string

text \<open>A \<^verbatim>\<open>datetime\<close> object (also a pandas \<^verbatim>\<open>Timestamp\<close>); \<open>tzinfo\<close> is the UTC offset in
  minutes, when the object is timezone-aware.\<close>

record datetime =
  year :: nat
  month :: nat
  day :: nat
  hour :: nat
  minute :: nat
  second :: nat
  microsecond :: nat
  tzinfo :: "int option"

text \<open>The configuration constants (\<^verbatim>\<open>verifyparallel.py\<close> lines 19-29, \<^verbatim>\<open>Q4fgh.py\<close> lines 246-248).\<close>

definition DEFAULT_DATE :: string where
  "DEFAULT_DATE = ''2025-01-01''"

definition MIN_VALID_YEAR :: nat where
  "MIN_VALID_YEAR = 1800"

definition MAX_VALID_YEAR :: nat where
  "MAX_VALID_YEAR = 2024"

definition MIN_LOCATION_LENGTH :: nat where
  "MIN_LOCATION_LENGTH = 10"

subsection \<open>Characters and strings\<close>

definition is_digit :: "char \<Rightarrow> bool" where
  "is_digit c = (CHR ''0'' \<le> c \<and> c \<le> CHR ''9'')"

definition digit_val :: "char \<Rightarrow> nat" where
  "digit_val c = of_char c - 48"

definition digit_char :: "nat \<Rightarrow> char" where
  "digit_char n = char_of (48 + n)"

text \<open>The ASCII characters for which \<^verbatim>\<open>str.isspace\<close> holds: the space, the control characters
  \<^verbatim>\<open>0x09\<close> to \<^verbatim>\<open>0x0d\<close> (tab, line feed, vertical tab, form feed, carriage return) and the
  separators \<^verbatim>\<open>0x1c\<close> to \<^verbatim>\<open>0x1f\<close>.\<close>

definition is_space :: "char \<Rightarrow> bool" where
  "is_space c = (c = CHR '' '' \<or> (CHR 0x09 \<le> c \<and> c \<le> CHR 0x0D) \<or> (CHR 0x1C \<le> c \<and> c \<le> CHR 0x1F))"

definition is_ascii :: "string \<Rightarrow> bool" where
  "is_ascii s = list_all (\<lambda>c. (of_char c :: nat) < 128) s"

definition is_word :: "char \<Rightarrow> bool" where
  "is_word c = ((CHR ''a'' \<le> c \<and> c \<le> CHR ''z'') \<or> (CHR ''A'' \<le> c \<and> c \<le> CHR ''Z'')
                \<or> is_digit c \<or> c = CHR ''_'')"

text \<open>\<^verbatim>\<open>str.strip()\<close>, \<^verbatim>\<open>str.lower()\<close>, \<^verbatim>\<open>str.split()\<close> and the substring test \<^verbatim>\<open>sub in s\<close>.\<close>

definition strip :: "string \<Rightarrow> string" where
  "strip s = rev (dropWhile is_space (rev (dropWhile is_space s)))"

definition lower_char :: "char \<Rightarrow> char" where
  "lower_char c = (if CHR ''A'' \<le> c \<and> c \<le> CHR ''Z'' then char_of (of_char c + (32::nat)) else c)"

definition lower :: "string \<Rightarrow> string" where
  "lower s = map lower_char s"

fun split_acc :: "string \<Rightarrow> string \<Rightarrow> string list" where
  "split_acc [] cur = (if cur = [] then [] else [cur])"
| "split_acc (c # cs) cur =
     (if is_space c then (if cur = [] then split_acc cs [] else cur # split_acc cs [])
      else split_acc cs (cur @ [c]))"

definition split :: "string \<Rightarrow> string list" where
  "split s = split_acc s []"

fun contains :: "string \<Rightarrow> string \<Rightarrow> bool" where
  "contains sub [] = (sub = [])"
| "contains sub (c # cs) = (take (length sub) (c # cs) = sub \<or> contains sub cs)"

subsection \<open>Formatting and parsing dates\<close>

text \<open>
  \<^verbatim>\<open>d.strftime("%Y-%m-%d")\<close> and \<^verbatim>\<open>dt.strftime("%Y-%m-01")\<close> (\<^verbatim>\<open>Q4fgh.py\<close> line 282), as the C
  library of Linux formats them: month and day in two digits, the year in decimal
  without padding, so a year below 1000 has fewer than four digits.
\<close>

definition fmt2 :: "nat \<Rightarrow> string" where
  "fmt2 n = [digit_char (n div 10), digit_char (n mod 10)]"

definition fmt4 :: "nat \<Rightarrow> string" where
  "fmt4 n = [digit_char (n div 1000), digit_char (n div 100 mod 10),
             digit_char (n div 10 mod 10), digit_char (n mod 10)]"

definition fmt_year :: "nat \<Rightarrow> string" where
  "fmt_year n =
     (if n < 10 then [digit_char n]
      else if n < 100 then [digit_char (n div 10), digit_char (n mod 10)]
      else if n < 1000 then [digit_char (n div 100), digit_char (n div 10 mod 10), digit_char (n mod 10)]
      else fmt4 n)"

definition strftime :: "datetime \<Rightarrow> string" where
  "strftime d = fmt_year (year d) @ ''-'' @ fmt2 (month d) @ ''-'' @ fmt2 (day d)"

definition strftime_month :: "datetime \<Rightarrow> string" where
  "strftime_month d = fmt_year (year d) @ ''-'' @ fmt2 (month d) @ ''-01''"

text \<open>The invariant of a \<^verbatim>\<open>datetime\<close> object: a year from 1 to 9999 and a day of the calendar.\<close>

definition is_leap :: "nat \<Rightarrow> bool" where
  "is_leap y = (y mod 4 = 0 \<and> (y mod 100 \<noteq> 0 \<or> y mod 400 = 0))"

definition days_in_month :: "nat \<Rightarrow> nat \<Rightarrow> nat" where
  "days_in_month y m =
     (if m = 2 then (if is_leap y then 29 else 28)
      else if m = 4 \<or> m = 6 \<or> m = 9 \<or> m = 11 then 30 else 31)"

definition valid_datetime :: "datetime \<Rightarrow> bool" where
  "valid_datetime d =
     (1 \<le> year d \<and> year d \<le> 9999 \<and> 1 \<le> month d \<and> month d \<le> 12 \<and>
      1 \<le> day d \<and> day d \<le> days_in_month (year d) (month d))"

text \<open>
  \<^verbatim>\<open>datetime.strptime(date_str, "%Y-%m-%d")\<close>; \<open>None\<close> is its \<^verbatim>\<open>ValueError\<close>. The directive
  \<^verbatim>\<open>%Y\<close> reads exactly four digits; \<^verbatim>\<open>%m\<close> reads \<^verbatim>\<open>1[0-2]|0[1-9]|[1-9]\<close>, that is one or two
  digits of value 1 to 12; \<^verbatim>\<open>%d\<close> reads \<^verbatim>\<open>3[01]|[12][0-9]|0[1-9]|[1-9]| [1-9]\<close>, that is one or two
  digits of value 1 to 31, or a space and a digit from 1 to 9. The whole string must be
  consumed, and the day must exist in the month.
\<close>

definition parse_year :: "string \<Rightarrow> nat option" where
  "parse_year s =
     (case s of
        [a, b, c, e] \<Rightarrow>
          if is_digit a \<and> is_digit b \<and> is_digit c \<and> is_digit e
          then Some (1000 * digit_val a + 100 * digit_val b + 10 * digit_val c + digit_val e)
          else None
      | _ \<Rightarrow> None)"

definition parse_month :: "string \<Rightarrow> nat option" where
  "parse_month s =
     (case s of
        [a] \<Rightarrow> if is_digit a \<and> 1 \<le> digit_val a then Some (digit_val a) else None
      | [a, b] \<Rightarrow>
          if is_digit a \<and> is_digit b \<and> 1 \<le> 10 * digit_val a + digit_val b
             \<and> 10 * digit_val a + digit_val b \<le> 12
          then Some (10 * digit_val a + digit_val b) else None
      | _ \<Rightarrow> None)"

definition parse_day :: "string \<Rightarrow> nat option" where
  "parse_day s =
     (case s of
        [a] \<Rightarrow> if is_digit a \<and> 1 \<le> digit_val a then Some (digit_val a) else None
      | [a, b] \<Rightarrow>
          if is_digit a \<and> is_digit b \<and> 1 \<le> 10 * digit_val a + digit_val b
             \<and> 10 * digit_val a + digit_val b \<le> 31
          then Some (10 * digit_val a + digit_val b)
          else if a = CHR '' '' \<and> is_digit b \<and> 1 \<le> digit_val b then Some (digit_val b)
          else None
      | _ \<Rightarrow> None)"

definition strptime :: "string \<Rightarrow> (nat \<times> nat \<times> nat) option" where
  "strptime s =
     (case parse_year (take 4 s) of
        None \<Rightarrow> None
      | Some y \<Rightarrow>
          (case drop 4 s of
             [] \<Rightarrow> None
           | c # rest \<Rightarrow>
               if c \<noteq> CHR ''-'' then None
               else (case dropWhile (\<lambda>x. x \<noteq> CHR ''-'') rest of
                       [] \<Rightarrow> None
                     | _ # ds \<Rightarrow>
                         (case (parse_month (takeWhile (\<lambda>x. x \<noteq> CHR ''-'') rest), parse_day ds) of
                            (Some m, Some dd) \<Rightarrow>
                              if 1 \<le> y \<and> dd \<le> days_in_month y m then Some (y, m, dd) else None
                          | _ \<Rightarrow> None))))"

text \<open>\<^verbatim>\<open>validate_year_in_range\<close> (\<^verbatim>\<open>verifyparallel.py\<close> lines 35-43).\<close>

definition validate_year_in_range :: "string \<Rightarrow> bool" where
  "validate_year_in_range date_str =
     (case strptime date_str of
        None \<Rightarrow> False
      | Some (y, m, dd) \<Rightarrow> MIN_VALID_YEAR \<le> y \<and> y \<le> MAX_VALID_YEAR)"

subsection \<open>The date libraries\<close>

text \<open>
  datefinder, dateparser and pandas are not part of the repository; the extractors take
  them as a parameter. \<open>find_dates\<close> is \<^verbatim>\<open>list(datefinder.find_dates(text))\<close>,
  \<open>dateparser_parse\<close> is \<^verbatim>\<open>dateparser.parse(text)\<close> (\<open>None\<close> when nothing is parsed),
  \<open>to_datetime\<close> is \<^verbatim>\<open>pd.to_datetime(s, errors="coerce")\<close> and \<open>to_datetime_format\<close> is
  \<^verbatim>\<open>pd.to_datetime(s, format="%B %Y", errors="coerce")\<close>. The two pandas calls sit in a
  \<^verbatim>\<open>try\<close> whose handler passes, so \<open>None\<close> stands for \<^verbatim>\<open>NaT\<close> and for an exception alike.
\<close>

record libs =
  find_dates :: "string \<Rightarrow> datetime list outcome"
  dateparser_parse :: "string \<Rightarrow> datetime option outcome"
  to_datetime :: "string \<Rightarrow> datetime option"
  to_datetime_format :: "string \<Rightarrow> datetime option"

subsection \<open>The extractor of verifyparallel.py\<close>

text \<open>\<^verbatim>\<open>d.replace(tzinfo=None)\<close>, and the order of naive \<^verbatim>\<open>datetime\<close> objects that
  \<^verbatim>\<open>sorted\<close> uses.\<close>

definition naive :: "datetime \<Rightarrow> datetime" where
  "naive d = d\<lparr>tzinfo := None\<rparr>"

definition dt_key :: "datetime \<Rightarrow> nat \<times> nat \<times> nat \<times> nat \<times> nat \<times> nat \<times> nat" where
  "dt_key d = (year d, month d, day d, hour d, minute d, second d, microsecond d)"

text \<open>The loop over \<^verbatim>\<open>df_dates_sorted\<close> (lines 59-62): the first date whose ISO string
  validates is returned.\<close>

fun first_valid :: "datetime list \<Rightarrow> string option" where
  "first_valid [] = None"
| "first_valid (d # ds) =
     (let iso_str = strftime d
      in if validate_year_in_range iso_str then Some iso_str else first_valid ds)"

text \<open>\<^verbatim>\<open>extract_date_from_text\<close> (\<^verbatim>\<open>verifyparallel.py\<close> lines 45-72).\<close>

definition extract_date_from_text :: "libs \<Rightarrow> cell \<Rightarrow> string outcome" where
  "extract_date_from_text L text =
     (case text of
        NaN \<Rightarrow> Returned DEFAULT_DATE
      | Str t \<Rightarrow>
          if strip t = [] then Returned DEFAULT_DATE
          else (case find_dates L t of
                  Raised \<Rightarrow> Raised
                | Returned df_dates \<Rightarrow>
                    (case first_valid (sort_key dt_key (map naive df_dates)) of
                       Some iso_str \<Rightarrow> Returned iso_str
                     | None \<Rightarrow>
                         (case dateparser_parse L t of
                            Raised \<Rightarrow> Raised
                          | Returned None \<Rightarrow> Returned DEFAULT_DATE
                          | Returned (Some parsed) \<Rightarrow>
                              (let iso_str = strftime (naive parsed)
                               in if validate_year_in_range iso_str then Returned iso_str
                                  else Returned DEFAULT_DATE)))))"

subsection \<open>The regular expressions of step 4c date.py\<close>

text \<open>
  The patterns use literals, the classes of digits and of whitespace, a character range,
  the word boundary, sequence, alternation, the greedy option and one capturing group.
  \<open>Space1\<close> is one or more whitespace characters, matched greedily.
\<close>

datatype rx =
    Lit string
  | Digit
  | Range char char
  | Space1
  | WordB
  | Seq rx rx
  | Alt rx rx
  | Opt rx
  | Grp rx

definition word_before :: "char option \<Rightarrow> bool" where
  "word_before p = (case p of None \<Rightarrow> False | Some c \<Rightarrow> is_word c)"

definition word_after :: "string \<Rightarrow> bool" where
  "word_after t = (case t of [] \<Rightarrow> False | c # _ \<Rightarrow> is_word c)"

definition last_char :: "char option \<Rightarrow> string \<Rightarrow> char option" where
  "last_char p m = (if m = [] then p else Some (last m))"

text \<open>
  A result is the text of group 1 (if the group took part), the matched text and the rest
  of the input. \<open>rx_match r p t\<close> lists the ways \<open>r\<close> matches a prefix of \<open>t\<close>, \<open>p\<close> being the
  character before \<open>t\<close>, in the order in which a backtracking matcher tries them; the head
  of the list is the match Python's \<^verbatim>\<open>re\<close> reports at this position.
\<close>

type_synonym rx_result = "string option \<times> string \<times> string"

fun rx_match :: "rx \<Rightarrow> char option \<Rightarrow> string \<Rightarrow> rx_result list" where
  "rx_match (Lit s) p t = (if take (length s) t = s then [(None, s, drop (length s) t)] else [])"
| "rx_match Digit p t =
     (case t of [] \<Rightarrow> [] | c # cs \<Rightarrow> if is_digit c then [(None, [c], cs)] else [])"
| "rx_match (Range a b) p t =
     (case t of [] \<Rightarrow> [] | c # cs \<Rightarrow> if a \<le> c \<and> c \<le> b then [(None, [c], cs)] else [])"
| "rx_match Space1 p t =
     map (\<lambda>n. (None, take n t, drop n t)) (rev [1..<Suc (length (takeWhile is_space t))])"
| "rx_match WordB p t = (if word_before p \<noteq> word_after t then [(None, [], t)] else [])"
| "rx_match (Seq a b) p t =
     concat (map (\<lambda>(g1, m1, r1).
                map (\<lambda>(g2, m2, r2). ((case g2 of None \<Rightarrow> g1 | Some g \<Rightarrow> Some g), m1 @ m2, r2))
                    (rx_match b (last_char p m1) r1))
             (rx_match a p t))"
| "rx_match (Alt a b) p t = rx_match a p t @ rx_match b p t"
| "rx_match (Opt a) p t = rx_match a p t @ [(None, [], t)]"
| "rx_match (Grp a) p t = map (\<lambda>(g, m, r). (Some m, m, r)) (rx_match a p t)"

text \<open>\<^verbatim>\<open>re.search\<close>: the leftmost position with a match, and the first match there.\<close>

fun re_search_from :: "rx \<Rightarrow> char option \<Rightarrow> string \<Rightarrow> rx_result option" where
  "re_search_from r p [] = (case rx_match r p [] of [] \<Rightarrow> None | x # _ \<Rightarrow> Some x)"
| "re_search_from r p (c # cs) =
     (case rx_match r p (c # cs) of [] \<Rightarrow> re_search_from r (Some c) cs | x # _ \<Rightarrow> Some x)"

definition re_search :: "rx \<Rightarrow> string \<Rightarrow> rx_result option" where
  "re_search r t = re_search_from r None t"

text \<open>\<^verbatim>\<open>m.group(0)\<close> and \<^verbatim>\<open>m.group(1)\<close>; in an f-string a group that took no part prints as
  \<^verbatim>\<open>None\<close>.\<close>

definition group0 :: "rx_result \<Rightarrow> string" where
  "group0 m = fst (snd m)"

definition group1 :: "rx_result \<Rightarrow> string" where
  "group1 m = (case fst m of None \<Rightarrow> ''None'' | Some g \<Rightarrow> g)"

fun seqs :: "rx list \<Rightarrow> rx" where
  "seqs [] = Lit []"
| "seqs [r] = r"
| "seqs (r # rs) = Seq r (seqs rs)"

fun alts :: "rx list \<Rightarrow> rx" where
  "alts [] = Lit []"
| "alts [r] = r"
| "alts (r # rs) = Alt r (alts rs)"

text \<open>The four patterns (\<^verbatim>\<open>Q4fgh.py\<close> lines 262-264, 274-276, 287 and 292).\<close>

definition MONTHS :: rx where
  "MONTHS = alts (map Lit [''january'', ''february'', ''march'', ''april'', ''may'', ''june'', ''july'',
                           ''august'', ''september'', ''october'', ''november'', ''december''])"

definition DIGIT4 :: rx where
  "DIGIT4 = seqs [Digit, Digit, Digit, Digit]"

definition ORDINAL_RX :: rx where
  "ORDINAL_RX = seqs [WordB, MONTHS, Space1, Digit, Opt Digit,
                      Opt (alts (map Lit [''st'', ''nd'', ''rd'', ''th''])), Opt (Lit '',''),
                      Space1, DIGIT4, WordB]"

definition MONTH_YEAR_RX :: rx where
  "MONTH_YEAR_RX = seqs [WordB, MONTHS, Space1, DIGIT4, WordB]"

definition EXPLICIT_YEAR_RX :: rx where
  "EXPLICIT_YEAR_RX = seqs [WordB, alts (map Lit [''in'', ''since'', ''from'']), Space1, Grp DIGIT4, WordB]"

definition YEAR_RX :: rx where
  "YEAR_RX = seqs [WordB,
                   Grp (Alt (seqs [Lit ''1'', Range (CHR ''8'') (CHR ''9''), Digit, Digit])
                            (seqs [Lit ''20'', Digit, Digit])),
                   WordB]"

subsection \<open>The extractor of step 4c date.py\<close>

text \<open>Pattern 1 and pattern 2 (\<^verbatim>\<open>Q4fgh.py\<close> lines 261-284): the rule yields a date when the
  pattern is found and pandas parses the matched text.\<close>

definition ordinal_rule :: "libs \<Rightarrow> string \<Rightarrow> string option" where
  "ordinal_rule L text_lower =
     (case re_search ORDINAL_RX text_lower of
        None \<Rightarrow> None
      | Some ordinal_match \<Rightarrow>
          (case to_datetime L (group0 ordinal_match) of
             None \<Rightarrow> None
           | Some dt \<Rightarrow> Some (strftime dt)))"

definition month_year_rule :: "libs \<Rightarrow> string \<Rightarrow> string option" where
  "month_year_rule L text_lower =
     (case re_search MONTH_YEAR_RX text_lower of
        None \<Rightarrow> None
      | Some month_year_match \<Rightarrow>
          (case to_datetime_format L (group0 month_year_match) of
             None \<Rightarrow> None
           | Some dt \<Rightarrow> Some (strftime_month dt)))"

text \<open>\<^verbatim>\<open>extract_date_from_text\<close> (\<^verbatim>\<open>Q4fgh.py\<close> lines 251-301).\<close>

definition extract_date_from_text_q4 :: "libs \<Rightarrow> cell \<Rightarrow> string outcome" where
  "extract_date_from_text_q4 L text =
     (case text of
        NaN \<Rightarrow> Returned DEFAULT_DATE
      | Str t \<Rightarrow>
          if strip t = [] then Returned DEFAULT_DATE
          else
            (let text_lower = lower t in
             case ordinal_rule L text_lower of
               Some r \<Rightarrow> Returned r
             | None \<Rightarrow>
                 (case month_year_rule L text_lower of
                    Some r \<Rightarrow> Returned r
                  | None \<Rightarrow>
                      (case re_search EXPLICIT_YEAR_RX text_lower of
                         Some explicit_year_match \<Rightarrow> Returned (group1 explicit_year_match @ ''-01-01'')
                       | None \<Rightarrow>
                           (case re_search YEAR_RX text_lower of
                              Some year_match \<Rightarrow> Returned (group1 year_match @ ''-01-01'')
                            | None \<Rightarrow>
                                (case find_dates L text_lower of
                                   Raised \<Rightarrow> Raised
                                 | Returned [] \<Rightarrow> Returned DEFAULT_DATE
                                 | Returned (m # _) \<Rightarrow> Returned (strftime m)))))))"

subsection \<open>Wikipedia lookups through the shared cache\<close>

text \<open>
  The \<^verbatim>\<open>wikipedia\<close> package is the external source. Its answers may differ from call to
  call, so each call takes the state \<open>'w\<close> of the outside world and returns the next one.
  \<open>search\<close> is \<^verbatim>\<open>wikipedia.search(query)\<close>; \<open>page\<close> is \<^verbatim>\<open>wikipedia.page(title)\<close> together with
  the reads of \<^verbatim>\<open>page.summary\<close> and \<^verbatim>\<open>page.title\<close>, and raises when any of them does.
  The state of the program is the module-level dictionary \<^verbatim>\<open>wiki_cache\<close> and the world.
\<close>

record wpage =
  title :: string
  summary :: string

record 'w wikipedia =
  search :: "string \<Rightarrow> 'w \<Rightarrow> string list outcome \<times> 'w"
  page :: "string \<Rightarrow> 'w \<Rightarrow> wpage outcome \<times> 'w"

record 'w state =
  wiki_cache :: "string \<rightharpoonup> string"
  world :: 'w

text \<open>\<^verbatim>\<open>generate_narrow_search_terms\<close> (lines 74-84).\<close>

definition generate_narrow_search_terms :: "string \<Rightarrow> string list" where
  "generate_narrow_search_terms location =
     [location @ '' history'', ''history of '' @ location, location @ '' founding'',
      location @ '' historical'', location @ '' establishment'']"

text \<open>
  The loop over \<^verbatim>\<open>results[:2]\<close> (lines 102-112 and 140-149, the same in both lookups but
  for the order of the two disambiguation tests): a page that raises, a disambiguation
  page and a summary without a date are skipped, a date found is appended to
  \<^verbatim>\<open>possible_dates\<close>.
\<close>

fun scan_titles :: "libs \<Rightarrow> 'w wikipedia \<Rightarrow> string list \<Rightarrow> string list \<times> 'w \<Rightarrow> string list \<times> 'w" where
  "scan_titles L W [] (possible_dates, w) = (possible_dates, w)"
| "scan_titles L W (t # ts) (possible_dates, w) =
     (case page W t w of
        (Raised, w') \<Rightarrow> scan_titles L W ts (possible_dates, w')
      | (Returned pg, w') \<Rightarrow>
          if contains ''may refer to:'' (lower (summary pg)) \<or> contains ''disambiguation'' (lower (title pg))
          then scan_titles L W ts (possible_dates, w')
          else (case extract_date_from_text L (Str (summary pg)) of
                  Raised \<Rightarrow> scan_titles L W ts (possible_dates, w')
                | Returned found \<Rightarrow>
                    if found \<noteq> DEFAULT_DATE
                    then scan_titles L W ts (possible_dates @ [found], w')
                    else scan_titles L W ts (possible_dates, w')))"

text \<open>The loop over the narrow queries (lines 95-118): a search that raises or finds
  nothing moves on to the next query; the loop stops at the first query that gave a date.\<close>

fun narrow_queries :: "libs \<Rightarrow> 'w wikipedia \<Rightarrow> string list \<Rightarrow> string list \<times> 'w \<Rightarrow> string list \<times> 'w" where
  "narrow_queries L W [] (possible_dates, w) = (possible_dates, w)"
| "narrow_queries L W (query_str # qs) (possible_dates, w) =
     (case search W query_str w of
        (Raised, w') \<Rightarrow> narrow_queries L W qs (possible_dates, w')
      | (Returned results, w') \<Rightarrow>
          if results = [] then narrow_queries L W qs (possible_dates, w')
          else (case scan_titles L W (take 2 results) (possible_dates, w') of
                  (possible_dates', w'') \<Rightarrow>
                    if possible_dates' \<noteq> [] then (possible_dates', w'')
                    else narrow_queries L W qs (possible_dates', w'')))"

text \<open>The end of both lookups (lines 120-126 and 153-159): the smallest date string, or
  the default date, is stored in the cache and returned.\<close>

definition store_result :: "string \<Rightarrow> string list \<times> 'w \<Rightarrow> 'w state \<Rightarrow> string \<times> 'w state" where
  "store_result location r s =
     (case r of
        (possible_dates, w') \<Rightarrow>
          if possible_dates \<noteq> []
          then (let best_date = min_list possible_dates
                in (best_date, s\<lparr>wiki_cache := (wiki_cache s)(location \<mapsto> best_date), world := w'\<rparr>))
          else (DEFAULT_DATE, s\<lparr>wiki_cache := (wiki_cache s)(location \<mapsto> DEFAULT_DATE), world := w'\<rparr>))"

text \<open>\<^verbatim>\<open>narrow_wikipedia_lookup_one\<close> (lines 86-126).\<close>

definition narrow_wikipedia_lookup_one :: "libs \<Rightarrow> 'w wikipedia \<Rightarrow> string \<Rightarrow> 'w state \<Rightarrow> string \<times> 'w state" where
  "narrow_wikipedia_lookup_one L W location s =
     (case wiki_cache s location of
        Some cached \<Rightarrow> (cached, s)
      | None \<Rightarrow>
          store_result location
            (narrow_queries L W (generate_narrow_search_terms location) ([], world s)) s)"

text \<open>\<^verbatim>\<open>broad_wikipedia_lookup_one\<close> (lines 128-159); \<open>broad_search\<close> is its \<^verbatim>\<open>try\<close> block.\<close>

definition broad_search :: "libs \<Rightarrow> 'w wikipedia \<Rightarrow> string \<Rightarrow> 'w \<Rightarrow> string list \<times> 'w" where
  "broad_search L W location w =
     (case search W location w of
        (Raised, w') \<Rightarrow> ([], w')
      | (Returned results, w') \<Rightarrow>
          if results = [] then ([], w')
          else scan_titles L W (take 2 results) ([], w'))"

definition broad_wikipedia_lookup_one :: "libs \<Rightarrow> 'w wikipedia \<Rightarrow> string \<Rightarrow> 'w state \<Rightarrow> string \<times> 'w state" where
  "broad_wikipedia_lookup_one L W location s =
     (case wiki_cache s location of
        Some cached \<Rightarrow> (cached, s)
      | None \<Rightarrow> store_result location (broad_search L W location (world s)) s)"

subsection \<open>The parallel lookup\<close>

text \<open>
  \<^verbatim>\<open>parallel_lookup\<close> (lines 161-187) submits one task per element of \<^verbatim>\<open>locations\<close> and
  records each result as its future completes; a future whose task raised is recorded
  with the default date. The lookup function works on the shared state of type \<open>'s\<close> and
  may raise an exception of the class \<^verbatim>\<open>Exception\<close>, which is what the handler of line 184
  catches and what \<open>Raised\<close> stands for. The model runs the tasks one after the other in
  the order of the list: the futures complete in some permutation of the submitted list,
  and what is proved below holds for every list. What a task did to the state before it raised stays done.
\<close>

fun run_tasks :: "(string \<Rightarrow> 's \<Rightarrow> string outcome \<times> 's) \<Rightarrow> string list \<Rightarrow> (string \<rightharpoonup> string) \<times> 's
                    \<Rightarrow> (string \<rightharpoonup> string) \<times> 's" where
  "run_tasks lookup_func [] (results_map, s) = (results_map, s)"
| "run_tasks lookup_func (loc # locs) (results_map, s) =
     (case lookup_func loc s of
        (Returned date_str, s') \<Rightarrow> run_tasks lookup_func locs (results_map(loc \<mapsto> date_str), s')
      | (Raised, s') \<Rightarrow> run_tasks lookup_func locs (results_map(loc \<mapsto> DEFAULT_DATE), s'))"

definition parallel_lookup :: "string list \<Rightarrow> (string \<Rightarrow> 's \<Rightarrow> string outcome \<times> 's) \<Rightarrow> 's
                                 \<Rightarrow> (string \<rightharpoonup> string) \<times> 's" where
  "parallel_lookup locations lookup_func s = run_tasks lookup_func locations (Map.empty, s)"

text \<open>A lookup function that never raises, as the two Wikipedia lookups are.\<close>

definition returning :: "(string \<Rightarrow> 's \<Rightarrow> string \<times> 's) \<Rightarrow> string \<Rightarrow> 's \<Rightarrow> string outcome \<times> 's" where
  "returning f loc s = (case f loc s of (r, s') \<Rightarrow> (Returned r, s'))"

text \<open>A lookup function observed by a counter of its invocations per key, the mocked
  adapter of a test.\<close>

definition counting :: "(string \<Rightarrow> 's \<Rightarrow> string outcome \<times> 's) \<Rightarrow> string \<Rightarrow> 's \<times> (string \<Rightarrow> nat)
                          \<Rightarrow> string outcome \<times> ('s \<times> (string \<Rightarrow> nat))" where
  "counting f loc sc =
     (case sc of (s, calls) \<Rightarrow> (case f loc s of (r, s') \<Rightarrow> (r, (s', calls(loc := Suc (calls loc))))))"

subsection \<open>The pipeline of verifyparallel.py\<close>

record row =
  description :: cell
  location :: cell

record out_row = row +
  LocalDate :: string
  NarrowWikiDate :: string
  BroadWikiDate :: string
  FinalDate :: string

text \<open>\<^verbatim>\<open>should_skip_location\<close> (lines 189-200).\<close>

definition should_skip_location :: "cell \<Rightarrow> bool" where
  "should_skip_location loc =
     (case loc of
        NaN \<Rightarrow> True
      | Str l \<Rightarrow>
          if length (split (strip l)) < 2 then True
          else if length (strip l) < MIN_LOCATION_LENGTH then True
          else False)"

text \<open>\<^verbatim>\<open>Series.unique()\<close> keeps the first occurrence of each value, in order;
  \<^verbatim>\<open>Series.dropna()\<close> drops the missing cells.\<close>

definition unique :: "'a list \<Rightarrow> 'a list" where
  "unique xs = rev (remdups (rev xs))"

definition dropna :: "cell list \<Rightarrow> string list" where
  "dropna cs = concat (map (\<lambda>c. case c of NaN \<Rightarrow> [] | Str s \<Rightarrow> [s]) cs)"

text \<open>
  \<^verbatim>\<open>Series.sample(n, random_state=seed)\<close> is a parameter: the keys, the sample size and
  the seed give the sample. pandas samples without replacement, so the sample of a
  duplicate-free list is duplicate-free and drawn from the list; \<open>sample_ok\<close> says so.
\<close>

type_synonym sampler = "string list \<Rightarrow> nat \<Rightarrow> nat \<Rightarrow> string list"

definition sample_ok :: "sampler \<Rightarrow> bool" where
  "sample_ok sample =
     (\<forall>xs n seed. distinct xs \<longrightarrow> distinct (sample xs n seed) \<and> set (sample xs n seed) \<subseteq> set xs)"

text \<open>
  The keys of a tier (lines 215-227 and 253-264) from the column of pairs of location and
  prior date: the distinct locations of the rows that hold the default date, without the
  short ones, sampled to \<^verbatim>\<open>int(len(missing_locs) * 0.5)\<close> keys, as
  \<^verbatim>\<open>SKIP_SHORT_LOCATIONS = True\<close> and \<^verbatim>\<open>SAMPLE_MISSING_FRAC = 0.5\<close> make it.
\<close>

definition select_locations :: "sampler \<Rightarrow> nat \<Rightarrow> (cell \<times> string) list \<Rightarrow> string list" where
  "select_locations sample random_state col =
     (let missing_locs = unique (dropna (map fst (filter (\<lambda>(loc, d). d = DEFAULT_DATE) col)));
          missing_locs = filter (\<lambda>loc. \<not> should_skip_location (Str loc)) missing_locs;
          sample_size = length missing_locs div 2
      in sample missing_locs sample_size random_state)"

text \<open>The merge of a tier (lines 245-249 and 281-285): \<^verbatim>\<open>results.get(row["location"],
  DEFAULT_DATE)\<close> when the prior date is the default date, the prior date otherwise.\<close>

definition merge_results :: "(string \<rightharpoonup> string) \<Rightarrow> cell \<Rightarrow> string \<Rightarrow> string" where
  "merge_results results loc prior =
     (if prior = DEFAULT_DATE
      then (case loc of
              NaN \<Rightarrow> DEFAULT_DATE
            | Str l \<Rightarrow> (case results l of None \<Rightarrow> DEFAULT_DATE | Some d \<Rightarrow> d))
      else prior)"

text \<open>\<^verbatim>\<open>df["description"].progress_apply(extract_date_from_text)\<close>: an exception ends the run.\<close>

fun apply_extract :: "libs \<Rightarrow> row list \<Rightarrow> string list outcome" where
  "apply_extract L [] = Returned []"
| "apply_extract L (r # rs) =
     (case extract_date_from_text L (description r) of
        Raised \<Rightarrow> Raised
      | Returned d \<Rightarrow> (case apply_extract L rs of Raised \<Rightarrow> Raised | Returned ds \<Rightarrow> Returned (d # ds)))"

text \<open>
  \<^verbatim>\<open>main\<close> (lines 203-306) with \<^verbatim>\<open>USE_BROADER_APPROACH = True\<close>, from the rows read to the rows
  written. A run returns the rows, the result maps of the two tiers and the final state.
  The statistics before the write (lines 291-301) divide by the number of rows, so a
  frame with no rows ends the run with \<^verbatim>\<open>ZeroDivisionError\<close> and nothing is written.
\<close>

record 'w run =
  rows_out :: "out_row list"
  narrow_results :: "string \<rightharpoonup> string"
  broad_results :: "string \<rightharpoonup> string"
  final_state :: "'w state"

definition main :: "libs \<Rightarrow> 'w wikipedia \<Rightarrow> sampler \<Rightarrow> row list \<Rightarrow> 'w state \<Rightarrow> 'w run outcome" where
  "main L W sample df s =
     (case apply_extract L df of
        Raised \<Rightarrow> Raised
      | Returned local \<Rightarrow>
          (let missing_locs_sampled = select_locations sample 42 (zip (map location df) local);
               (narrow_res, s1) = parallel_lookup missing_locs_sampled
                                    (returning (narrow_wikipedia_lookup_one L W)) s;
               narrow = map (\<lambda>(r, d). merge_results narrow_res (location r) d) (zip df local);
               missing_locs2_sampled = select_locations sample 999 (zip (map location df) narrow);
               (broad_res, s2) = parallel_lookup missing_locs2_sampled
                                   (returning (broad_wikipedia_lookup_one L W)) s1;
               broad = map (\<lambda>(r, d). merge_results broad_res (location r) d) (zip df narrow)
           in if df = [] then Raised
              else Returned \<lparr>rows_out =
                          map (\<lambda>(r, ld, nd, bd).
                                 \<lparr>description = description r, location = location r, LocalDate = ld,
                                  NarrowWikiDate = nd, BroadWikiDate = bd, FinalDate = bd\<rparr>)
                              (zip df (zip local (zip narrow broad))),
                        narrow_results = narrow_res, broad_results = broad_res, final_state = s2\<rparr>))"

text \<open>The rows a run writes; a run that raised writes none.\<close>

definition rows_written :: "'w run outcome \<Rightarrow> out_row list" where
  "rows_written res = (case res of Raised \<Rightarrow> [] | Returned out \<Rightarrow> rows_out out)"

subsection \<open>The pipeline of step 4c date.py\<close>

record q4_row = row +
  Haunted_Places_Date :: string
  wiki_date :: cell
  dbpedia_date :: cell
  Final_Date :: cell

text \<open>The SPARQL endpoint of DBpedia: the date values of the bindings for a place name.\<close>

type_synonym 'w sparql = "string \<Rightarrow> 'w \<Rightarrow> string list outcome \<times> 'w"

fun apply_extract_q4 :: "libs \<Rightarrow> row list \<Rightarrow> string list outcome" where
  "apply_extract_q4 L [] = Returned []"
| "apply_extract_q4 L (r # rs) =
     (case extract_date_from_text_q4 L (description r) of
        Raised \<Rightarrow> Raised
      | Returned d \<Rightarrow> (case apply_extract_q4 L rs of Raised \<Rightarrow> Raised | Returned ds \<Rightarrow> Returned (d # ds)))"

text \<open>The body of the loop of \<^verbatim>\<open>run_wikipedia_approach\<close> (\<^verbatim>\<open>Q4fgh.py\<close> lines 314-326), and
  \<^verbatim>\<open>query_dbpedia\<close> (lines 338-360): every exception gives the default date.\<close>

definition wikipedia_lookup_q4 :: "libs \<Rightarrow> 'w wikipedia \<Rightarrow> string \<Rightarrow> 'w \<Rightarrow> string \<times> 'w" where
  "wikipedia_lookup_q4 L W loc w =
     (case search W loc w of
        (Raised, w') \<Rightarrow> (DEFAULT_DATE, w')
      | (Returned results, w') \<Rightarrow>
          (case results of
             [] \<Rightarrow> (DEFAULT_DATE, w')
           | t # _ \<Rightarrow>
               (case page W t w' of
                  (Raised, w'') \<Rightarrow> (DEFAULT_DATE, w'')
                | (Returned pg, w'') \<Rightarrow>
                    (case extract_date_from_text_q4 L (Str (summary pg)) of
                       Raised \<Rightarrow> (DEFAULT_DATE, w'')
                     | Returned d \<Rightarrow> (d, w'')))))"

definition query_dbpedia :: "libs \<Rightarrow> 'w sparql \<Rightarrow> string \<Rightarrow> 'w \<Rightarrow> string \<times> 'w" where
  "query_dbpedia L D place_name w =
     (case D place_name w of
        (Raised, w') \<Rightarrow> (DEFAULT_DATE, w')
      | (Returned bindings, w') \<Rightarrow>
          (case bindings of
             [] \<Rightarrow> (DEFAULT_DATE, w')
           | v # _ \<Rightarrow>
               (case extract_date_from_text_q4 L (Str v) of
                  Raised \<Rightarrow> (DEFAULT_DATE, w')
                | Returned d \<Rightarrow> (d, w'))))"

text \<open>The rows of the lookup table, one per location, in order.\<close>

fun lookup_rows :: "(string \<Rightarrow> 'w \<Rightarrow> string \<times> 'w) \<Rightarrow> string list \<Rightarrow> 'w \<Rightarrow> (string \<times> string) list \<times> 'w" where
  "lookup_rows f [] w = ([], w)"
| "lookup_rows f (loc # locs) w =
     (case f loc w of
        (d, w') \<Rightarrow> (case lookup_rows f locs w' of (rest, w'') \<Rightarrow> ((loc, d) # rest, w'')))"

text \<open>\<^verbatim>\<open>df.merge(right, on="location", how="left")\<close> for a right table with one row per
  location: a row whose location is missing, or is not in the right table, gets a
  missing cell.\<close>

definition merge_left :: "(string \<times> string) list \<Rightarrow> cell \<Rightarrow> cell" where
  "merge_left right loc =
     (case loc of
        NaN \<Rightarrow> NaN
      | Str l \<Rightarrow> (case map_of right l of None \<Rightarrow> NaN | Some d \<Rightarrow> Str d))"

text \<open>
  \<^verbatim>\<open>run_wikipedia_approach\<close> (lines 304-336) and \<^verbatim>\<open>run_dbpedia_approach\<close> (lines 362-381).
  With no location to look up the lookup table is \<^verbatim>\<open>pd.DataFrame([])\<close>, which has no
  \<^verbatim>\<open>location\<close> column, and the merge raises \<^verbatim>\<open>KeyError\<close>.
\<close>

definition run_wikipedia_approach :: "libs \<Rightarrow> 'w wikipedia \<Rightarrow> q4_row list \<Rightarrow> 'w \<Rightarrow> q4_row list outcome \<times> 'w" where
  "run_wikipedia_approach L W df w =
     (let missing_locations =
            unique (dropna (map location (filter (\<lambda>r. Haunted_Places_Date r = DEFAULT_DATE) df)))
      in case lookup_rows (wikipedia_lookup_q4 L W) missing_locations w of
           (wiki_rows, w') \<Rightarrow>
             if wiki_rows = [] then (Raised, w')
             else (Returned
                     (map (\<lambda>r. let wd = merge_left wiki_rows (location r)
                                in r\<lparr>wiki_date := wd,
                                     Final_Date := (if Haunted_Places_Date r = DEFAULT_DATE then wd
                                                    else Str (Haunted_Places_Date r))\<rparr>) df),
                   w'))"

definition run_dbpedia_approach :: "libs \<Rightarrow> 'w sparql \<Rightarrow> q4_row list \<Rightarrow> 'w \<Rightarrow> q4_row list outcome \<times> 'w" where
  "run_dbpedia_approach L D df w =
     (let missing_locations =
            unique (dropna (map location (filter (\<lambda>r. Final_Date r = Str DEFAULT_DATE) df)))
      in case lookup_rows (query_dbpedia L D) missing_locations w of
           (dbpedia_rows, w') \<Rightarrow>
             if dbpedia_rows = [] then (Raised, w')
             else (Returned
                     (map (\<lambda>r. let dd = merge_left dbpedia_rows (location r)
                                in r\<lparr>dbpedia_date := dd,
                                     Final_Date := (if Final_Date r = Str DEFAULT_DATE then dd
                                                    else Final_Date r)\<rparr>) df),
                   w'))"

text \<open>\<^verbatim>\<open>main\<close> (lines 412-438), from the rows read to the rows written.\<close>

definition main_q4 :: "libs \<Rightarrow> 'w wikipedia \<Rightarrow> 'w sparql \<Rightarrow> row list \<Rightarrow> 'w \<Rightarrow> q4_row list outcome" where
  "main_q4 L W D df w =
     (case apply_extract_q4 L df of
        Raised \<Rightarrow> Raised
      | Returned dates \<Rightarrow>
          (case run_wikipedia_approach L W
                  (map (\<lambda>(r, d). \<lparr>description = description r, location = location r,
                                    Haunted_Places_Date = d, wiki_date = NaN, dbpedia_date = NaN,
                                    Final_Date = NaN\<rparr>) (zip df dates)) w of
             (Raised, w1) \<Rightarrow> Raised
           | (Returned df1, w1) \<Rightarrow>
               (case run_dbpedia_approach L D df1 w1 of
                  (Raised, w2) \<Rightarrow> Raised
                | (Returned df2, w2) \<Rightarrow> Returned df2)))"

definition written :: "'a list outcome \<Rightarrow> 'a list" where
  "written res = (case res of Raised \<Rightarrow> [] | Returned rows \<Rightarrow> rows)"

subsection \<open>Concrete libraries, sources and data\<close>

text \<open>The values below instantiate the parameters where a statement is checked on a
  concrete input.\<close>

definition mk_date :: "nat \<Rightarrow> nat \<Rightarrow> nat \<Rightarrow> datetime" where
  "mk_date y m d = \<lparr>year = y, month = m, day = d, hour = 0, minute = 0, second = 0,
                    microsecond = 0, tzinfo = None\<rparr>"

text \<open>Libraries that find nothing.\<close>

definition no_libs :: libs where
  "no_libs = \<lparr>find_dates = (\<lambda>_. Returned []), dateparser_parse = (\<lambda>_. Returned None),
              to_datetime = (\<lambda>_. None), to_datetime_format = (\<lambda>_. None)\<rparr>"

text \<open>Libraries that know a few texts: datefinder reports the dates of a text in the
  order in which they stand in it; pandas parses three matched texts and no other, so
  not \<^verbatim>\<open>february 30th, 1995\<close>, which is no day of the calendar, and not
  \<^verbatim>\<open>march 27, 1634\<close>, which lies before the first pandas timestamp.\<close>

definition demo_libs :: libs where
  "demo_libs =
     \<lparr>find_dates = (\<lambda>t. Returned
         (if t = ''seen on 5/6/95 and 1/2/90'' then [mk_date 1995 5 6, mk_date 1990 1 2]
          else if t = ''The mill opened on 4 July 1887.'' then [mk_date 1887 7 4]
          else if t = ''torn down 31/12/1799, rebuilt 1/1/2025'' then [mk_date 1799 12 31, mk_date 2025 1 1]
          else if t = ''first seen 1/1/1800'' then [mk_date 1800 1 1]
          else if t = ''last seen 31/12/2024'' then [mk_date 2024 12 31]
          else [])),
      dateparser_parse = (\<lambda>t. Returned None),
      to_datetime = (\<lambda>s. if s = ''october 3rd, 1995'' then Some (mk_date 1995 10 3)
                         else if s = ''march 3rd, 1996'' then Some (mk_date 1996 3 3)
                         else None),
      to_datetime_format = (\<lambda>s. if s = ''march 2020'' then Some (mk_date 2020 3 1) else None)\<rparr>"

text \<open>A Wikipedia whose world is the log of the queries it was sent. It has an article
  for the bare query \<^verbatim>\<open>Old Mill Road\<close> and for \<^verbatim>\<open>Gallows Hill Cemetery history\<close>.\<close>

definition logging_wikipedia :: "string list wikipedia" where
  "logging_wikipedia =
     \<lparr>search = (\<lambda>q w. (Returned (if q = ''Old Mill Road'' then [''Old Mill Road (Ohio)'']
                                   else if q = ''Gallows Hill Cemetery history'' then [''Gallows Hill Cemetery'']
                                   else []), w @ [q])),
      page = (\<lambda>t w. (Returned \<lparr>title = t, summary = ''The mill opened on 4 July 1887.''\<rparr>, w))\<rparr>"

definition empty_cache :: "string list state" where
  "empty_cache = \<lparr>wiki_cache = Map.empty, world = []\<rparr>"

text \<open>A Wikipedia and a DBpedia that find nothing.\<close>

definition silent_wikipedia :: "unit wikipedia" where
  "silent_wikipedia = \<lparr>search = (\<lambda>q w. (Returned [], w)), page = (\<lambda>t w. (Raised, w))\<rparr>"

definition silent_sparql :: "unit sparql" where
  "silent_sparql = (\<lambda>p w. (Returned [], w))"

text \<open>A Wikipedia that is down: every search and every page raises.\<close>

definition down_wikipedia :: "string list wikipedia" where
  "down_wikipedia = \<lparr>search = (\<lambda>q w. (Raised, w @ [q])), page = (\<lambda>t w. (Raised, w))\<rparr>"

text \<open>A sampler that takes the first keys, and a lookup function that raises for one key.\<close>

definition take_sampler :: sampler where
  "take_sampler xs n random_state = take n xs"

definition flaky_lookup :: "string \<Rightarrow> unit \<Rightarrow> string outcome \<times> unit" where
  "flaky_lookup loc s = (if loc = ''Gallows Hill Cemetery'' then (Raised, s) else (Returned ''1901-02-03'', s))"

definition df_missing_location :: "row list" where
  "df_missing_location =
     [\<lparr>description = Str ''People still talk about strange lights here'', location = NaN\<rparr>,
      \<lparr>description = Str ''Cold spots on the stairs'', location = Str ''Old Mill Road''\<rparr>]"

definition df_demo :: "row list" where
  "df_demo =
     [\<lparr>description = Str ''Cold spots on the stairs'', location = Str ''Gallows Hill Cemetery''\<rparr>,
      \<lparr>description = Str ''Footsteps at night'', location = Str ''Old Mill Road''\<rparr>,
      \<lparr>description = Str ''A woman in white'', location = Str ''Gallows Hill Cemetery''\<rparr>,
      \<lparr>description = Str ''seen on 5/6/95 and 1/2/90'', location = Str ''Old Mill Road''\<rparr>,
      \<lparr>description = Str ''People still talk about strange lights here'', location = Str ''X''\<rparr>,
      \<lparr>description = NaN, location = NaN\<rparr>]"

definition col_demo :: "(cell \<times> string) list" where
  "col_demo = [(Str ''Old Mill Road'', DEFAULT_DATE), (Str ''Old Mill Road'', DEFAULT_DATE),
               (Str ''Old Mill Road'', DEFAULT_DATE), (Str ''Gallows Hill Cemetery'', DEFAULT_DATE),
               (NaN, DEFAULT_DATE), (Str ''X'', DEFAULT_DATE), (Str ''Hangman Creek Bridge'', ''1901-02-03'')]"

section \<open>Properties\<close>

subsection \<open>Dates as strings\<close>

lemma digit_char_is_digit: "n < 10 \<Longrightarrow> is_digit (digit_char n)"
  by (simp add: is_digit_def digit_char_def less_eq_char_def)

lemma digit_val_digit_char: "n < 10 \<Longrightarrow> digit_val (digit_char n) = n"
  by (simp add: digit_val_def digit_char_def)

lemma digit_char_not_dash: "n < 10 \<Longrightarrow> digit_char n \<noteq> CHR ''-''"
proof
  assume n: "n < 10" and "digit_char n = CHR ''-''"
  then have "(of_char (digit_char n) :: nat) = of_char (CHR ''-'')" by simp
  with n show False by (simp add: digit_char_def)
qed

lemma parse_year_fmt4: "y \<le> 9999 \<Longrightarrow> parse_year (fmt4 y) = Some y"
proof -
  assume y: "y \<le> 9999"
  have a: "y div 1000 < 10" using y by simp
  have s1: "y = 10 * (y div 10) + y mod 10" by simp
  have s2: "y div 10 = 10 * (y div 100) + y div 10 mod 10"
    using div_mult_mod_eq[of "y div 10" 10] by (simp add: div_mult2_eq[symmetric])
  have s3: "y div 100 = 10 * (y div 1000) + y div 100 mod 10"
    using div_mult_mod_eq[of "y div 100" 10] by (simp add: div_mult2_eq[symmetric])
  have e: "1000 * (y div 1000) + 100 * (y div 100 mod 10) + 10 * (y div 10 mod 10) + y mod 10 = y"
    using s1 s2 s3 by linarith
  show ?thesis
    using a e by (simp add: parse_year_def fmt4_def digit_char_is_digit digit_val_digit_char)
qed

lemma parse_month_fmt2: "1 \<le> m \<Longrightarrow> m \<le> 12 \<Longrightarrow> parse_month (fmt2 m) = Some m"
proof -
  assume m: "1 \<le> m" "m \<le> 12"
  have a: "m div 10 < 10" using m by simp
  show ?thesis
    using a m by (simp add: parse_month_def fmt2_def digit_char_is_digit digit_val_digit_char)
qed

lemma parse_day_fmt2: "1 \<le> n \<Longrightarrow> n \<le> 31 \<Longrightarrow> parse_day (fmt2 n) = Some n"
proof -
  assume n: "1 \<le> n" "n \<le> 31"
  have a: "n div 10 < 10" using n by simp
  show ?thesis
    using a n by (simp add: parse_day_def fmt2_def digit_char_is_digit digit_val_digit_char)
qed

lemma days_in_month_le: "days_in_month y m \<le> 31"
  by (simp add: days_in_month_def)

text \<open>Parsing the formatted date of a \<^verbatim>\<open>datetime\<close> object gives its year, month and day
  back when the year has four digits; with a shorter year the string does not parse.\<close>

lemma strptime_strftime:
  assumes "valid_datetime d" and "1000 \<le> year d"
  shows "strptime (strftime d) = Some (year d, month d, day d)"
proof -
  from assms have y: "1 \<le> year d" "year d \<le> 9999" and m: "1 \<le> month d" "month d \<le> 12"
    and dd: "1 \<le> day d" "day d \<le> days_in_month (year d) (month d)"
    by (simp_all add: valid_datetime_def)
  have d31: "day d \<le> 31" using dd(2) days_in_month_le[of "year d" "month d"] by linarith
  have t4: "take 4 (strftime d) = fmt4 (year d)"
    using assms(2) by (simp add: strftime_def fmt_year_def fmt4_def)
  have d4: "drop 4 (strftime d) = CHR ''-'' # (fmt2 (month d) @ CHR ''-'' # fmt2 (day d))"
    using assms(2) by (simp add: strftime_def fmt_year_def fmt4_def)
  have m10: "month d div 10 < 10" "month d mod 10 < 10" using m by simp_all
  have tw: "takeWhile (\<lambda>x. x \<noteq> CHR ''-'') (fmt2 (month d) @ CHR ''-'' # fmt2 (day d)) = fmt2 (month d)"
    using m10 by (simp add: fmt2_def digit_char_not_dash)
  have dw: "dropWhile (\<lambda>x. x \<noteq> CHR ''-'') (fmt2 (month d) @ CHR ''-'' # fmt2 (day d)) = CHR ''-'' # fmt2 (day d)"
    using m10 by (simp add: fmt2_def digit_char_not_dash)
  show ?thesis
    unfolding strptime_def t4 d4
    using y dd by (simp add: parse_year_fmt4 tw dw parse_month_fmt2[OF m] parse_day_fmt2[OF dd(1) d31])
qed

lemma not_is_digit_dash: "\<not> is_digit (CHR ''-'')"
  by (simp add: is_digit_def less_eq_char_def)

lemma strptime_strftime_short_year: "year d < 1000 \<Longrightarrow> strptime (strftime d) = None"
  by (simp add: strptime_def strftime_def fmt_year_def fmt2_def parse_year_def not_is_digit_dash)

lemma validate_strftime:
  "valid_datetime d \<Longrightarrow>
     validate_year_in_range (strftime d) = (MIN_VALID_YEAR \<le> year d \<and> year d \<le> MAX_VALID_YEAR)"
proof (cases "1000 \<le> year d")
  case True
  assume "valid_datetime d"
  then show ?thesis using True by (simp add: validate_year_in_range_def strptime_strftime)
next
  case False
  then show ?thesis
    by (simp add: validate_year_in_range_def strptime_strftime_short_year MIN_VALID_YEAR_def)
qed

lemma not_validate_DEFAULT_DATE: "\<not> validate_year_in_range DEFAULT_DATE"
  by (simp add: validate_year_in_range_def DEFAULT_DATE_def strptime_def parse_year_def
      is_digit_def digit_val_def less_eq_char_def MAX_VALID_YEAR_def parse_month_def parse_day_def days_in_month_def)

lemma strftime_naive: "strftime (naive d) = strftime d"
  by (simp add: strftime_def naive_def)

lemma dt_key_naive: "dt_key (naive d) = dt_key d"
  by (simp add: dt_key_def naive_def)

lemma valid_datetime_naive: "valid_datetime (naive d) = valid_datetime d"
  by (simp add: valid_datetime_def naive_def)

lemma validate_naive:
  "valid_datetime d \<Longrightarrow>
     validate_year_in_range (strftime (naive d)) = (MIN_VALID_YEAR \<le> year d \<and> year d \<le> MAX_VALID_YEAR)"
  by (simp add: strftime_naive validate_strftime)

lemma strftime_demo:
  "strftime (mk_date 1800 1 1) = ''1800-01-01''" "strftime (mk_date 2024 12 31) = ''2024-12-31''"
  "strftime (mk_date 1990 1 2) = ''1990-01-02''" "strftime (mk_date 1995 10 3) = ''1995-10-03''"
  by code_simp+

lemma strip_demo:
  "strip ''torn down 31/12/1799, rebuilt 1/1/2025'' \<noteq> []" "strip ''first seen 1/1/1800'' \<noteq> []"
  "strip ''last seen 31/12/2024'' \<noteq> []" "strip ''seen on 5/6/95 and 1/2/90'' \<noteq> []"
  by code_simp+

subsection \<open>The loop over the sorted candidates\<close>

lemma first_valid_None:
  "first_valid ds = None \<longleftrightarrow> (\<forall>d\<in>set ds. \<not> validate_year_in_range (strftime d))"
  by (induction ds) (auto simp: Let_def)

lemma first_valid_Some:
  "first_valid ds = Some s \<Longrightarrow> \<exists>d\<in>set ds. s = strftime d \<and> validate_year_in_range s"
  by (induction ds) (auto simp: Let_def split: if_splits)

lemma first_valid_sorted:
  "sorted (map dt_key ds) \<Longrightarrow> first_valid ds = Some s \<Longrightarrow>
     \<exists>e\<in>set ds. s = strftime e \<and> validate_year_in_range s \<and>
        (\<forall>d\<in>set ds. validate_year_in_range (strftime d) \<longrightarrow> dt_key e \<le> dt_key d)"
proof (induction ds)
  case Nil
  then show ?case by simp
next
  case (Cons a ds)
  show ?case
  proof (cases "validate_year_in_range (strftime a)")
    case True
    with Cons.prems have "s = strftime a" by (simp add: Let_def)
    moreover have "\<forall>d\<in>set (a # ds). dt_key a \<le> dt_key d"
      using Cons.prems(1) by auto
    ultimately show ?thesis using True by auto
  next
    case False
    with Cons.prems have fv: "first_valid ds = Some s" by (simp add: Let_def)
    from Cons.prems(1) have "sorted (map dt_key ds)" by simp
    from Cons.IH[OF this fv] obtain e where e: "e \<in> set ds" "s = strftime e"
      "validate_year_in_range s"
      "\<forall>d\<in>set ds. validate_year_in_range (strftime d) \<longrightarrow> dt_key e \<le> dt_key d"
      by blast
    then show ?thesis using False by auto
  qed
qed

text \<open>What \<^verbatim>\<open>verifyparallel.py\<close>'s extractor returns is the default date or a validated date.\<close>

lemma extract_date_from_text_cases:
  "extract_date_from_text L text = Returned r \<Longrightarrow> r = DEFAULT_DATE \<or> validate_year_in_range r"
  by (auto simp: extract_date_from_text_def Let_def
      split: cell.splits if_splits outcome.splits option.splits dest: first_valid_Some)

subsection \<open>Blank text and the patterns\<close>

lemma strip_Nil_all_space: "strip t = [] \<Longrightarrow> \<forall>c\<in>set t. is_space c"
proof -
  assume "strip t = []"
  then have a: "\<forall>c\<in>set (dropWhile is_space t). is_space c"
    by (simp add: strip_def)
  have "dropWhile is_space t = []"
  proof (rule ccontr)
    assume n: "dropWhile is_space t \<noteq> []"
    then have "\<not> is_space (hd (dropWhile is_space t))" by (rule hd_dropWhile)
    moreover have "hd (dropWhile is_space t) \<in> set (dropWhile is_space t)" using n by simp
    ultimately show False using a by blast
  qed
  then show ?thesis by simp
qed

lemma is_space_not_word: "is_space c \<Longrightarrow> \<not> is_word c"
  by (auto simp: is_space_def is_word_def is_digit_def less_eq_char_def)

lemma is_space_lower_char: "is_space c \<Longrightarrow> lower_char c = c"
  by (auto simp: is_space_def lower_char_def less_eq_char_def)

text \<open>A pattern that starts with a word boundary is not found in blank text.\<close>

lemma re_search_from_blank:
  "\<forall>c\<in>set t. is_space c \<Longrightarrow> \<not> word_before p \<Longrightarrow> re_search_from (Seq WordB r) p t = None"
proof (induction t arbitrary: p)
  case Nil
  then show ?case by (simp add: word_after_def)
next
  case (Cons a t)
  have "\<not> is_word a" using Cons.prems(1) by (simp add: is_space_not_word)
  then have "\<not> word_before (Some a)" "\<not> word_after (a # t)"
    by (simp_all add: word_before_def word_after_def)
  then show ?case using Cons by simp
qed

lemma re_search_blank: "strip t = [] \<Longrightarrow> re_search (Seq WordB r) (lower t) = None"
proof -
  assume "strip t = []"
  then have a: "\<forall>c\<in>set t. is_space c" by (rule strip_Nil_all_space)
  then have "lower t = t" by (simp add: lower_def is_space_lower_char map_idI)
  then show ?thesis using a by (simp add: re_search_def re_search_from_blank word_before_def)
qed

lemma ORDINAL_RX_blank: "strip t = [] \<Longrightarrow> re_search ORDINAL_RX (lower t) = None"
  unfolding ORDINAL_RX_def by (simp add: re_search_blank)

lemma MONTH_YEAR_RX_blank: "strip t = [] \<Longrightarrow> re_search MONTH_YEAR_RX (lower t) = None"
  unfolding MONTH_YEAR_RX_def by (simp add: re_search_blank)

lemma EXPLICIT_YEAR_RX_blank: "strip t = [] \<Longrightarrow> re_search EXPLICIT_YEAR_RX (lower t) = None"
  unfolding EXPLICIT_YEAR_RX_def by (simp add: re_search_blank)

lemma YEAR_RX_blank: "strip t = [] \<Longrightarrow> re_search YEAR_RX (lower t) = None"
  unfolding YEAR_RX_def by (simp add: re_search_blank)

lemma march_2020_rules:
  "strip ''March 2020'' \<noteq> []" "lower ''March 2020'' = ''march 2020''"
  "re_search ORDINAL_RX ''march 2020'' = None"
  "re_search MONTH_YEAR_RX ''march 2020'' = Some (None, ''march 2020'', [])"
  "fmt_year 2020 = ''2020''" "fmt2 3 = ''03''"
  by code_simp+

lemma in_1995: "extract_date_from_text_q4 L (Str ''in 1995'') = Returned ''1995-01-01''"
  by code_simp

lemma cascade_demo:
  "re_search ORDINAL_RX (lower ''October 3rd, 1995 and 1900'') = Some (None, ''october 3rd, 1995'', '' and 1900'')"
  "re_search YEAR_RX (lower ''October 3rd, 1995 and 1900'') = Some (Some ''1995'', ''1995'', '' and 1900'')"
  "re_search ORDINAL_RX (lower ''built 1887'') = None"
  "re_search MONTH_YEAR_RX (lower ''built 1887'') = None"
  "re_search EXPLICIT_YEAR_RX (lower ''built 1887'') = None"
  "re_search YEAR_RX (lower ''built 1887'') = Some (Some ''1887'', ''1887'', [])"
  "re_search ORDINAL_RX (lower ''Founded on March 27, 1634 and rebuilt in 1895'')
     = Some (None, ''march 27, 1634'', '' and rebuilt in 1895'')"
  "re_search MONTH_YEAR_RX (lower ''Founded on March 27, 1634 and rebuilt in 1895'') = None"
  "re_search EXPLICIT_YEAR_RX (lower ''Founded on March 27, 1634 and rebuilt in 1895'')
     = Some (Some ''1895'', ''in 1895'', [])"
  "re_search ORDINAL_RX (lower ''March 2020'') = None"
  "re_search MONTH_YEAR_RX (lower ''March 2020'') = Some (None, ''march 2020'', [])"
  "strftime_month (mk_date 2020 3 1) = ''2020-03-01''"
  by code_simp+

lemma cascade_ascii:
  "is_ascii ''October 3rd, 1995 and 1900''" "is_ascii ''March 2020''"
  "is_ascii ''Founded on March 27, 1634 and rebuilt in 1895''" "is_ascii ''built 1887''"
  "is_ascii ''February 30th, 1995 and March 3rd, 1996''"
  by code_simp+

text \<open>A rule with a pattern and a pandas call gives no date exactly when the pattern is
  not found or pandas does not parse its leftmost match.\<close>

lemma ordinal_rule_None:
  "ordinal_rule L text_lower = None \<longleftrightarrow>
     (\<forall>m. re_search ORDINAL_RX text_lower = Some m \<longrightarrow> to_datetime L (group0 m) = None)"
  by (auto simp: ordinal_rule_def split: option.splits)

lemma month_year_rule_None:
  "month_year_rule L text_lower = None \<longleftrightarrow>
     (\<forall>m. re_search MONTH_YEAR_RX text_lower = Some m \<longrightarrow> to_datetime_format L (group0 m) = None)"
  by (auto simp: month_year_rule_def split: option.splits)

subsection \<open>The cache\<close>

lemma store_result_cache:
  "wiki_cache (snd (store_result k r s)) k = Some (fst (store_result k r s))"
  by (cases r) (simp add: store_result_def Let_def)

lemma narrow_stores:
  "wiki_cache (snd (narrow_wikipedia_lookup_one L W k s)) k = Some (fst (narrow_wikipedia_lookup_one L W k s))"
  by (cases "wiki_cache s k") (simp_all add: narrow_wikipedia_lookup_one_def store_result_cache)

lemma broad_stores:
  "wiki_cache (snd (broad_wikipedia_lookup_one L W k s)) k = Some (fst (broad_wikipedia_lookup_one L W k s))"
  by (cases "wiki_cache s k") (simp_all add: broad_wikipedia_lookup_one_def store_result_cache)

lemma narrow_hit: "wiki_cache s k = Some v \<Longrightarrow> narrow_wikipedia_lookup_one L W k s = (v, s)"
  by (simp add: narrow_wikipedia_lookup_one_def)

lemma broad_hit: "wiki_cache s k = Some v \<Longrightarrow> broad_wikipedia_lookup_one L W k s = (v, s)"
  by (simp add: broad_wikipedia_lookup_one_def)

text \<open>After a narrow lookup of a key, whatever its result, a broad lookup of the same key
  answers from the cache and leaves the state, the world included, as it is.\<close>

lemma broad_after_narrow:
  "broad_wikipedia_lookup_one L' W' k (snd (narrow_wikipedia_lookup_one L W k s))
     = (fst (narrow_wikipedia_lookup_one L W k s), snd (narrow_wikipedia_lookup_one L W k s))"
  by (rule broad_hit) (rule narrow_stores)

subsection \<open>A source that fails\<close>

lemma scan_titles_pages_raise:
  "\<forall>t w. fst (page W t w) = Raised \<Longrightarrow> fst (scan_titles L W ts (pd, w)) = pd"
proof (induction ts arbitrary: w)
  case Nil
  then show ?case by simp
next
  case (Cons a ts)
  obtain r w' where p: "page W a w = (r, w')" by (cases "page W a w") auto
  with Cons.prems have "r = Raised" by (metis fst_conv)
  then show ?case using p Cons by simp
qed

lemma narrow_queries_fail:
  "(\<forall>q w. fst (search W q w) = Raised) \<or> (\<forall>t w. fst (page W t w) = Raised) \<Longrightarrow>
     fst (narrow_queries L W qs ([], w)) = []"
proof (induction qs arbitrary: w)
  case Nil
  then show ?case by simp
next
  case (Cons q qs)
  obtain r w' where s: "search W q w = (r, w')" by (cases "search W q w") auto
  show ?case
  proof (cases r)
    case Raised
    then show ?thesis using s Cons by simp
  next
    case (Returned results)
    with s Cons.prems have pr: "\<forall>t w. fst (page W t w) = Raised" by (metis fst_conv outcome.distinct(1))
    obtain pd w'' where sc: "scan_titles L W (take 2 results) ([], w') = (pd, w'')"
      by (cases "scan_titles L W (take 2 results) ([], w')") auto
    have "pd = []" using scan_titles_pages_raise[OF pr, of L "take 2 results" "[]" w'] sc by simp
    then show ?thesis using s Returned sc Cons by simp
  qed
qed

lemma broad_search_fail:
  "(\<forall>q w. fst (search W q w) = Raised) \<or> (\<forall>t w. fst (page W t w) = Raised) \<Longrightarrow>
     fst (broad_search L W k w) = []"
proof -
  assume a: "(\<forall>q w. fst (search W q w) = Raised) \<or> (\<forall>t w. fst (page W t w) = Raised)"
  obtain r w' where s: "search W k w = (r, w')" by (cases "search W k w") auto
  show ?thesis
  proof (cases r)
    case Raised
    then show ?thesis using s by (simp add: broad_search_def)
  next
    case (Returned results)
    with s a have pr: "\<forall>t w. fst (page W t w) = Raised" by (metis fst_conv outcome.distinct(1))
    show ?thesis using s Returned scan_titles_pages_raise[OF pr, of L "take 2 results" "[]" w']
      by (simp add: broad_search_def)
  qed
qed

lemma store_result_Nil: "fst r = [] \<Longrightarrow> fst (store_result k r s) = DEFAULT_DATE"
  by (cases r) (simp add: store_result_def)

text \<open>When every search raises, or every page does, a lookup of a key that is not in the
  cache returns the default date.\<close>

lemma lookups_fail_default:
  assumes "wiki_cache c k = None"
    and "(\<forall>q w. fst (search W q w) = Raised) \<or> (\<forall>t w. fst (page W t w) = Raised)"
  shows "fst (narrow_wikipedia_lookup_one L W k c) = DEFAULT_DATE"
    and "fst (broad_wikipedia_lookup_one L W k c) = DEFAULT_DATE"
  using assms
  by (simp_all add: narrow_wikipedia_lookup_one_def broad_wikipedia_lookup_one_def store_result_Nil
      narrow_queries_fail broad_search_fail)

subsection \<open>The tasks of a parallel lookup\<close>

lemma run_tasks_append:
  "run_tasks f (xs @ ys) acc = run_tasks f ys (run_tasks f xs acc)"
  by (induction xs arbitrary: acc) (auto split: prod.splits outcome.splits)

lemma run_tasks_dom: "dom (fst (run_tasks f xs (rm, s))) = dom rm \<union> set xs"
  by (induction xs arbitrary: rm s) (auto split: prod.splits outcome.splits)

lemma run_tasks_other: "k \<notin> set xs \<Longrightarrow> fst (run_tasks f xs (rm, s)) k = rm k"
  by (induction xs arbitrary: rm s) (auto split: prod.splits outcome.splits)

lemma run_tasks_counting:
  "snd (snd (run_tasks (counting f) locs (rm, (s, calls)))) k = calls k + count_list locs k"
proof (induction locs arbitrary: rm s calls)
  case Nil
  then show ?case by simp
next
  case (Cons a locs)
  obtain r s' where f: "f a s = (r, s')" by (cases "f a s") auto
  show ?case using f Cons.IH by (cases r) (simp_all add: counting_def)
qed

lemma count_list_distinct: "distinct xs \<Longrightarrow> count_list xs k \<le> 1"
  by (induction xs) auto

subsection \<open>The keys and the rows of a run\<close>

lemma distinct_unique: "distinct (unique xs)"
  by (simp add: unique_def)

lemma distinct_select_locations: "sample_ok sample \<Longrightarrow> distinct (select_locations sample seed col)"
  by (simp add: select_locations_def Let_def sample_ok_def distinct_unique)

lemma length_apply_extract: "apply_extract L df = Returned local \<Longrightarrow> length local = length df"
  by (induction df arbitrary: local) (auto split: outcome.splits)

lemma main_Returned:
  "rows_written (main L W sample df s) \<noteq> [] \<Longrightarrow>
     \<exists>out. main L W sample df s = Returned out \<and> rows_out out = rows_written (main L W sample df s)"
  by (cases "main L W sample df s") (simp_all add: rows_written_def)

text \<open>The date columns of a row that \<^verbatim>\<open>main\<close> writes, in terms of the result maps.\<close>

lemma main_row_dates:
  assumes "main L W sample df s = Returned out" and "r \<in> set (rows_out out)"
  shows "NarrowWikiDate r = merge_results (narrow_results out) (location r) (LocalDate r)
       \<and> BroadWikiDate r = merge_results (broad_results out) (location r) (NarrowWikiDate r)
       \<and> FinalDate r = BroadWikiDate r"
proof -
  from assms(1) obtain local where local: "apply_extract L df = Returned local"
    by (auto simp: main_def split: outcome.splits)
  from assms(1) local have ne: "df \<noteq> []"
    by (auto simp: main_def Let_def split: prod.splits if_splits)
  have len: "length local = length df" by (rule length_apply_extract[OF local])
  define keys1 where "keys1 = select_locations sample 42 (zip (map location df) local)"
  obtain nr s1 where t1: "parallel_lookup keys1 (returning (narrow_wikipedia_lookup_one L W)) s = (nr, s1)"
    by (cases "parallel_lookup keys1 (returning (narrow_wikipedia_lookup_one L W)) s") auto
  define narrow where "narrow = map (\<lambda>(r, d). merge_results nr (location r) d) (zip df local)"
  define keys2 where "keys2 = select_locations sample 999 (zip (map location df) narrow)"
  obtain br s2 where t2: "parallel_lookup keys2 (returning (broad_wikipedia_lookup_one L W)) s1 = (br, s2)"
    by (cases "parallel_lookup keys2 (returning (broad_wikipedia_lookup_one L W)) s1") auto
  define broad where "broad = map (\<lambda>(r, d). merge_results br (location r) d) (zip df narrow)"
  have out: "out = \<lparr>rows_out =
                          map (\<lambda>(r, ld, nd, bd).
                                 \<lparr>description = description r, location = location r, LocalDate = ld,
                                  NarrowWikiDate = nd, BroadWikiDate = bd, FinalDate = bd\<rparr>)
                              (zip df (zip local (zip narrow broad))),
                        narrow_results = nr, broad_results = br, final_state = s2\<rparr>"
    using assms(1) local t1 t2 ne
    by (simp add: main_def Let_def keys1_def[symmetric] narrow_def[symmetric] keys2_def[symmetric]
        broad_def[symmetric])
  have ln: "length narrow = length df" by (simp add: narrow_def len)
  have lb: "length broad = length df" by (simp add: broad_def ln)
  from assms(2) obtain i where i: "i < length df"
    and r: "r = \<lparr>description = description (df ! i), location = location (df ! i), LocalDate = local ! i,
                  NarrowWikiDate = narrow ! i, BroadWikiDate = broad ! i, FinalDate = broad ! i\<rparr>"
    unfolding out by (auto simp: in_set_conv_nth len ln lb)
  have n: "narrow ! i = merge_results nr (location (df ! i)) (local ! i)"
    using i by (simp add: narrow_def len)
  have b: "broad ! i = merge_results br (location (df ! i)) (narrow ! i)"
    using i by (simp add: broad_def ln)
  have nr: "narrow_results out = nr" and br: "broad_results out = br"
    by (simp_all add: out)
  show ?thesis
    unfolding r nr br by (simp add: n b)
qed

text \<open>In \<^verbatim>\<open>verifyparallel.py\<close> a row without a local date whose location no tier looked up
  keeps the default date: the merge reads the result map with \<^verbatim>\<open>get\<close> and a default.\<close>

lemma main_row_not_looked_up:
  assumes "main L W sample df s = Returned out" and "r \<in> set (rows_out out)"
    and "LocalDate r = DEFAULT_DATE"
    and "\<forall>l. location r = Str l \<longrightarrow> narrow_results out l = None \<and> broad_results out l = None"
  shows "FinalDate r = DEFAULT_DATE"
  using main_row_dates[OF assms(1,2)] assms(3,4)
  by (cases "location r") (simp_all add: merge_results_def)

lemma demo_run:
  "map LocalDate (rows_written (main demo_libs logging_wikipedia take_sampler df_demo empty_cache))
     = [DEFAULT_DATE, DEFAULT_DATE, DEFAULT_DATE, ''1990-01-02'', DEFAULT_DATE, DEFAULT_DATE]"
  "map NarrowWikiDate (rows_written (main demo_libs logging_wikipedia take_sampler df_demo empty_cache))
     = [''1887-07-04'', DEFAULT_DATE, ''1887-07-04'', ''1990-01-02'', DEFAULT_DATE, DEFAULT_DATE]"
  by code_simp+

section \<open>The claims\<close>

text \<open>
  Claim C1, as amended. In the extractor of \<^verbatim>\<open>verifyparallel.py\<close>, whenever a rule matches
  a text that is not blank (datefinder reports a candidate whose formatted date passes
  \<^verbatim>\<open>validate_year_in_range\<close>, or dateparser's result does), the extractor returns a string
  that passes \<^verbatim>\<open>validate_year_in_range\<close> and therefore differs from \<^verbatim>\<open>DEFAULT_DATE\<close>, whose
  year 2025 lies outside the valid range.
\<close>

theorem extract_date_from_text_match_not_default:
  assumes "strip t \<noteq> []" and "find_dates L t = Returned ds"
    and "(\<exists>d\<in>set ds. validate_year_in_range (strftime (naive d))) \<or>
         (dateparser_parse L t = Returned (Some p) \<and> validate_year_in_range (strftime (naive p)))"
  shows "\<exists>r. extract_date_from_text L (Str t) = Returned r \<and> validate_year_in_range r \<and> r \<noteq> DEFAULT_DATE"
proof (cases "first_valid (sort_key dt_key (map naive ds))")
  case None
  then have "\<forall>d\<in>set ds. \<not> validate_year_in_range (strftime (naive d))"
    by (simp add: first_valid_None)
  with assms(3) have p: "dateparser_parse L t = Returned (Some p)"
    "validate_year_in_range (strftime (naive p))" by auto
  then have "extract_date_from_text L (Str t) = Returned (strftime (naive p))"
    using assms(1,2) None by (simp add: extract_date_from_text_def)
  with p(2) show ?thesis using not_validate_DEFAULT_DATE by auto
next
  case (Some s)
  then have "extract_date_from_text L (Str t) = Returned s"
    using assms(1,2) by (simp add: extract_date_from_text_def)
  moreover have "validate_year_in_range s" using first_valid_Some[OF Some] by auto
  ultimately show ?thesis using not_validate_DEFAULT_DATE by auto
qed

text \<open>The theorem at the summary \<^verbatim>\<open>The mill opened on 4 July 1887.\<close>\<close>

theorem extract_date_from_text_match_not_default_witness:
  "strip ''The mill opened on 4 July 1887.'' \<noteq> []
   \<and> find_dates demo_libs ''The mill opened on 4 July 1887.'' = Returned [mk_date 1887 7 4]
   \<and> validate_year_in_range (strftime (naive (mk_date 1887 7 4)))
   \<and> (\<exists>r. extract_date_from_text demo_libs (Str ''The mill opened on 4 July 1887.'') = Returned r
          \<and> validate_year_in_range r \<and> r \<noteq> DEFAULT_DATE)"
proof -
  have a: "strip ''The mill opened on 4 July 1887.'' \<noteq> []" by code_simp
  have b: "find_dates demo_libs ''The mill opened on 4 July 1887.'' = Returned [mk_date 1887 7 4]"
    by (simp add: demo_libs_def)
  have c: "validate_year_in_range (strftime (naive (mk_date 1887 7 4)))" by code_simp
  have d: "\<exists>d\<in>set [mk_date 1887 7 4]. validate_year_in_range (strftime (naive d))"
    using c by simp
  show ?thesis
    using extract_date_from_text_match_not_default[OF a b disjI1[OF d]] a b c by blast
qed

text \<open>Claim C1 as stated fails on the extractor of \<^verbatim>\<open>step 4c date.py\<close>: in the text
  \<^verbatim>\<open>in 2025\<close> the third rule matches and extracts the year 2025, and the date returned is the
  default date itself.\<close>

theorem extract_date_from_text_q4_returns_sentinel:
  "re_search EXPLICIT_YEAR_RX (lower ''in 2025'') = Some (Some ''2025'', ''in 2025'', [])
   \<and> extract_date_from_text_q4 no_libs (Str ''in 2025'') = Returned DEFAULT_DATE"
  by code_simp

text \<open>
  Claim C2, as amended. Range enforcement holds in the extractor of \<^verbatim>\<open>verifyparallel.py\<close>.
  For a text that is not blank, let the candidates be the dates datefinder reports and
  the date dateparser parses, all of them \<^verbatim>\<open>datetime\<close> objects. If some candidate has its
  year in the closed interval from \<^verbatim>\<open>MIN_VALID_YEAR\<close> = 1800 to \<^verbatim>\<open>MAX_VALID_YEAR\<close> = 2024,
  the extractor returns the formatted date of such a candidate; if every candidate's year
  lies outside the interval, it returns the default date. So 1799 and 2025 are rejected,
  1800 and 2024 are accepted.
\<close>

theorem extract_date_from_text_range:
  assumes "strip t \<noteq> []" and "find_dates L t = Returned ds" and "dateparser_parse L t = Returned p"
    and "\<forall>d\<in>set ds \<union> set_option p. valid_datetime d"
  shows "(if \<exists>d\<in>set ds \<union> set_option p. MIN_VALID_YEAR \<le> year d \<and> year d \<le> MAX_VALID_YEAR
          then \<exists>d\<in>set ds \<union> set_option p. MIN_VALID_YEAR \<le> year d \<and> year d \<le> MAX_VALID_YEAR \<and>
                  extract_date_from_text L (Str t) = Returned (strftime d)
          else extract_date_from_text L (Str t) = Returned DEFAULT_DATE)"
proof (cases "first_valid (sort_key dt_key (map naive ds))")
  case None
  then have nods: "\<forall>d\<in>set ds. \<not> (MIN_VALID_YEAR \<le> year d \<and> year d \<le> MAX_VALID_YEAR)"
    using assms(4) by (auto simp: first_valid_None validate_naive)
  show ?thesis
  proof (cases p)
    case pNone: None
    have "extract_date_from_text L (Str t) = Returned DEFAULT_DATE"
      using assms(1-3) None pNone by (simp add: extract_date_from_text_def)
    then show ?thesis using nods pNone by auto
  next
    case (Some q)
    then have vq: "valid_datetime q" using assms(4) by simp
    show ?thesis
    proof (cases "MIN_VALID_YEAR \<le> year q \<and> year q \<le> MAX_VALID_YEAR")
      case True
      then have "extract_date_from_text L (Str t) = Returned (strftime q)"
        using assms(1-3) None Some vq by (simp add: extract_date_from_text_def validate_strftime strftime_naive)
      then show ?thesis using True Some by auto
    next
      case False
      then have "extract_date_from_text L (Str t) = Returned DEFAULT_DATE"
        using assms(1-3) None Some vq by (auto simp: extract_date_from_text_def validate_strftime strftime_naive)
      then show ?thesis using False nods Some by auto
    qed
  qed
next
  case (Some s)
  from first_valid_Some[OF Some] obtain e where e: "e \<in> set ds" "s = strftime (naive e)"
    "validate_year_in_range s" by auto
  have ve: "valid_datetime e" using assms(4) e(1) by simp
  have r: "MIN_VALID_YEAR \<le> year e \<and> year e \<le> MAX_VALID_YEAR"
    using e(2,3) ve by (simp add: validate_naive)
  have "extract_date_from_text L (Str t) = Returned (strftime e)"
    using assms(1,2) Some e(2) by (simp add: extract_date_from_text_def strftime_naive)
  then show ?thesis using r e(1) by auto
qed

text \<open>The theorem at three texts: candidates of 1799 and 2025 only, a candidate of 1800, a
  candidate of 2024.\<close>

theorem extract_date_from_text_range_witness:
  "extract_date_from_text demo_libs (Str ''torn down 31/12/1799, rebuilt 1/1/2025'') = Returned DEFAULT_DATE
   \<and> extract_date_from_text demo_libs (Str ''first seen 1/1/1800'') = Returned ''1800-01-01''
   \<and> extract_date_from_text demo_libs (Str ''last seen 31/12/2024'') = Returned ''2024-12-31''"
proof -
  have p: "\<And>t. dateparser_parse demo_libs t = Returned None" by (simp add: demo_libs_def)
  have f1: "find_dates demo_libs ''torn down 31/12/1799, rebuilt 1/1/2025''
              = Returned [mk_date 1799 12 31, mk_date 2025 1 1]"
    by (simp add: demo_libs_def)
  have f2: "find_dates demo_libs ''first seen 1/1/1800'' = Returned [mk_date 1800 1 1]"
    by (simp add: demo_libs_def)
  have f3: "find_dates demo_libs ''last seen 31/12/2024'' = Returned [mk_date 2024 12 31]"
    by (simp add: demo_libs_def)
  have v1: "\<forall>d\<in>set [mk_date 1799 12 31, mk_date 2025 1 1] \<union> set_option None. valid_datetime d"
    by (simp add: valid_datetime_def mk_date_def days_in_month_def is_leap_def)
  have v2: "\<forall>d\<in>set [mk_date 1800 1 1] \<union> set_option None. valid_datetime d"
    by (simp add: valid_datetime_def mk_date_def days_in_month_def is_leap_def)
  have v3: "\<forall>d\<in>set [mk_date 2024 12 31] \<union> set_option None. valid_datetime d"
    by (simp add: valid_datetime_def mk_date_def days_in_month_def is_leap_def)
  have r1: "extract_date_from_text demo_libs (Str ''torn down 31/12/1799, rebuilt 1/1/2025'') = Returned DEFAULT_DATE"
    using extract_date_from_text_range[OF strip_demo(1) f1 p v1]
    by (simp add: mk_date_def MIN_VALID_YEAR_def MAX_VALID_YEAR_def)
  have r2: "extract_date_from_text demo_libs (Str ''first seen 1/1/1800'') = Returned ''1800-01-01''"
    using extract_date_from_text_range[OF strip_demo(2) f2 p v2] strftime_demo(1)
    by (simp add: mk_date_def MIN_VALID_YEAR_def MAX_VALID_YEAR_def)
  have r3: "extract_date_from_text demo_libs (Str ''last seen 31/12/2024'') = Returned ''2024-12-31''"
    using extract_date_from_text_range[OF strip_demo(3) f3 p v3] strftime_demo(2)
    by (simp add: mk_date_def MIN_VALID_YEAR_def MAX_VALID_YEAR_def)
  show ?thesis using r1 r2 r3 by simp
qed

text \<open>Claim C2 as stated fails on the extractor of \<^verbatim>\<open>step 4c date.py\<close>, which checks no
  range: for the text \<^verbatim>\<open>in 1799\<close> it returns the date of the year 1799, not the default
  date.\<close>

theorem extract_date_from_text_q4_accepts_1799:
  "extract_date_from_text_q4 no_libs (Str ''in 1799'') = Returned ''1799-01-01''
   \<and> ''1799-01-01'' \<noteq> DEFAULT_DATE"
  by code_simp

text \<open>
  Claim C3, on the pipeline of \<^verbatim>\<open>step 4c date.py\<close>: a row whose description holds no date
  and whose location is missing is looked up by no tier, and the run writes it with a
  missing \<^verbatim>\<open>Final Date\<close> (\<^verbatim>\<open>NaN\<close>) where the claim expects the default date. On the same
  rows \<^verbatim>\<open>verifyparallel.py\<close> writes the default date (in general, see
  \<open>main_row_not_looked_up\<close>).
\<close>

theorem main_q4_writes_missing_final_date:
  "map Final_Date (written (main_q4 no_libs silent_wikipedia silent_sparql df_missing_location ()))
     = [NaN, Str DEFAULT_DATE]
   \<and> map FinalDate (rows_written (main no_libs silent_wikipedia take_sampler df_missing_location
                                     \<lparr>wiki_cache = Map.empty, world = ()\<rparr>))
     = [DEFAULT_DATE, DEFAULT_DATE]"
  by code_simp

text \<open>
  Claim C4. The keys a tier submits to the parallel lookup are distinct, however many
  rows share a location, so a lookup function observed by a counter is invoked at most
  once for a key in a tier run; and a lookup, narrow or broad, of a key that is in the
  cache returns the cached value and leaves the state as it is, the world of the external
  source included: no search and no page is requested.
\<close>

theorem lookup_once_per_key:
  assumes "sample_ok sample"
  shows "snd (snd (parallel_lookup (select_locations sample seed col) (counting lookup_func) (s, (\<lambda>_. 0)))) k \<le> 1
         \<and> (\<forall>c v. wiki_cache c k = Some v \<longrightarrow>
               narrow_wikipedia_lookup_one L W k c = (v, c) \<and> broad_wikipedia_lookup_one L W k c = (v, c))"
proof -
  have "count_list (select_locations sample seed col) k \<le> 1"
    using distinct_select_locations[OF assms] by (rule count_list_distinct)
  then show ?thesis
    by (simp add: parallel_lookup_def run_tasks_counting narrow_hit broad_hit)
qed

text \<open>The theorem at a column in which three rows share the location \<^verbatim>\<open>Old Mill Road\<close>, and
  at a cache that holds this key.\<close>

theorem lookup_once_per_key_witness:
  "sample_ok take_sampler
   \<and> select_locations take_sampler 42 col_demo = [''Old Mill Road'']
   \<and> snd (snd (parallel_lookup (select_locations take_sampler 42 col_demo) (counting flaky_lookup)
                 ((), (\<lambda>_. 0)))) ''Old Mill Road'' \<le> 1
   \<and> wiki_cache (empty_cache\<lparr>wiki_cache := [''Old Mill Road'' \<mapsto> ''1887-07-04'']\<rparr>) ''Old Mill Road''
       = Some ''1887-07-04''
   \<and> narrow_wikipedia_lookup_one demo_libs logging_wikipedia ''Old Mill Road''
        (empty_cache\<lparr>wiki_cache := [''Old Mill Road'' \<mapsto> ''1887-07-04'']\<rparr>)
       = (''1887-07-04'', empty_cache\<lparr>wiki_cache := [''Old Mill Road'' \<mapsto> ''1887-07-04'']\<rparr>)
   \<and> broad_wikipedia_lookup_one demo_libs logging_wikipedia ''Old Mill Road''
        (empty_cache\<lparr>wiki_cache := [''Old Mill Road'' \<mapsto> ''1887-07-04'']\<rparr>)
       = (''1887-07-04'', empty_cache\<lparr>wiki_cache := [''Old Mill Road'' \<mapsto> ''1887-07-04'']\<rparr>)"
proof -
  have ok: "sample_ok take_sampler"
    by (auto simp: sample_ok_def take_sampler_def dest: in_set_takeD)
  have sel: "select_locations take_sampler 42 col_demo = [''Old Mill Road'']" by code_simp
  have hit: "wiki_cache (empty_cache\<lparr>wiki_cache := [''Old Mill Road'' \<mapsto> ''1887-07-04'']\<rparr>) ''Old Mill Road''
       = Some ''1887-07-04''" by simp
  note th = lookup_once_per_key[OF ok, where seed = 42 and col = col_demo and lookup_func = flaky_lookup
      and s = "()" and k = "''Old Mill Road''" and L = demo_libs and W = logging_wikipedia]
  show ?thesis
    using ok sel hit th[THEN conjunct1] th[THEN conjunct2, rule_format, OF hit] by simp
qed

text \<open>
  Claim C5, on the two lookups of \<^verbatim>\<open>verifyparallel.py\<close>. The narrow lookup of
  \<^verbatim>\<open>Old Mill Road\<close> sends its five queries, finds nothing and returns the default date. The
  broad lookup that follows returns the default date from the cache and sends no query:
  the log of the source still holds the five narrow queries only. On an empty cache the
  same broad lookup sends its query and resolves the key to 1887-07-04.
\<close>

theorem broad_lookup_skipped_after_narrow_miss:
  "fst (narrow_wikipedia_lookup_one demo_libs logging_wikipedia ''Old Mill Road'' empty_cache) = DEFAULT_DATE
   \<and> fst (broad_wikipedia_lookup_one demo_libs logging_wikipedia ''Old Mill Road''
          (snd (narrow_wikipedia_lookup_one demo_libs logging_wikipedia ''Old Mill Road'' empty_cache)))
       = DEFAULT_DATE
   \<and> world (snd (broad_wikipedia_lookup_one demo_libs logging_wikipedia ''Old Mill Road''
          (snd (narrow_wikipedia_lookup_one demo_libs logging_wikipedia ''Old Mill Road'' empty_cache))))
       = [''Old Mill Road history'', ''history of Old Mill Road'', ''Old Mill Road founding'',
          ''Old Mill Road historical'', ''Old Mill Road establishment'']
   \<and> fst (broad_wikipedia_lookup_one demo_libs logging_wikipedia ''Old Mill Road'' empty_cache) = ''1887-07-04''
   \<and> world (snd (broad_wikipedia_lookup_one demo_libs logging_wikipedia ''Old Mill Road'' empty_cache))
       = [''Old Mill Road'']"
  by code_simp

text \<open>
  Claim C6. In every row that \<^verbatim>\<open>main\<close> writes, the date of a tier is the date of the tier
  before when that date is not the default date, and otherwise the tier's lookup result
  for the row's location (the default date when the tier has no result for it); the final
  date is the date of the broad tier. So a row whose narrow date is resolved has this
  date as its final date.
\<close>

theorem merge_monotone:
  assumes "main L W sample df s = Returned out" and "r \<in> set (rows_out out)"
  shows "NarrowWikiDate r = (if LocalDate r \<noteq> DEFAULT_DATE then LocalDate r
                             else (case location r of NaN \<Rightarrow> DEFAULT_DATE
                                   | Str l \<Rightarrow> (case narrow_results out l of None \<Rightarrow> DEFAULT_DATE | Some d \<Rightarrow> d)))
       \<and> BroadWikiDate r = (if NarrowWikiDate r \<noteq> DEFAULT_DATE then NarrowWikiDate r
                             else (case location r of NaN \<Rightarrow> DEFAULT_DATE
                                   | Str l \<Rightarrow> (case broad_results out l of None \<Rightarrow> DEFAULT_DATE | Some d \<Rightarrow> d)))
       \<and> FinalDate r = BroadWikiDate r
       \<and> (NarrowWikiDate r \<noteq> DEFAULT_DATE \<longrightarrow> FinalDate r = NarrowWikiDate r)"
proof -
  note d = main_row_dates[OF assms]
  have n: "NarrowWikiDate r = (if LocalDate r \<noteq> DEFAULT_DATE then LocalDate r
                             else (case location r of NaN \<Rightarrow> DEFAULT_DATE
                                   | Str l \<Rightarrow> (case narrow_results out l of None \<Rightarrow> DEFAULT_DATE | Some d \<Rightarrow> d)))"
    using d by (simp add: merge_results_def)
  have b: "BroadWikiDate r = (if NarrowWikiDate r \<noteq> DEFAULT_DATE then NarrowWikiDate r
                             else (case location r of NaN \<Rightarrow> DEFAULT_DATE
                                   | Str l \<Rightarrow> (case broad_results out l of None \<Rightarrow> DEFAULT_DATE | Some d \<Rightarrow> d)))"
    using d by (simp add: merge_results_def)
  have f: "FinalDate r = BroadWikiDate r" using d by simp
  have m: "NarrowWikiDate r \<noteq> DEFAULT_DATE \<longrightarrow> FinalDate r = NarrowWikiDate r"
    using d by (simp add: merge_results_def)
  from n b f m show ?thesis by (intro conjI)
qed

text \<open>The theorem at a run over six rows: the first row has no local date, the narrow tier
  resolves its location, and the final date is the narrow date.\<close>

theorem merge_monotone_witness:
  "\<exists>out r. main demo_libs logging_wikipedia take_sampler df_demo empty_cache = Returned out
     \<and> r \<in> set (rows_out out) \<and> LocalDate r = DEFAULT_DATE \<and> NarrowWikiDate r = ''1887-07-04''
     \<and> NarrowWikiDate r \<noteq> DEFAULT_DATE \<and> FinalDate r = ''1887-07-04''"
proof -
  let ?m = "main demo_libs logging_wikipedia take_sampler df_demo empty_cache"
  have ne: "rows_written ?m \<noteq> []" using demo_run(1) by auto
  from main_Returned[OF ne] obtain out where out: "?m = Returned out" "rows_out out = rows_written ?m"
    by blast
  define r where "r = hd (rows_out out)"
  have rin: "r \<in> set (rows_out out)" using ne out(2) by (simp add: r_def)
  have l: "LocalDate r = DEFAULT_DATE"
    using demo_run(1) ne by (cases "rows_written ?m") (simp_all add: r_def out(2))
  have n: "NarrowWikiDate r = ''1887-07-04''"
    using demo_run(2) ne by (cases "rows_written ?m") (simp_all add: r_def out(2))
  have nd: "NarrowWikiDate r \<noteq> DEFAULT_DATE" using n by (simp add: DEFAULT_DATE_def)
  have "FinalDate r = NarrowWikiDate r"
    using merge_monotone[OF out(1) rin] nd by blast
  then show ?thesis using out(1) rin l n nd by auto
qed

text \<open>
  Claim C7, as amended. On ASCII text the cascade of \<^verbatim>\<open>step 4c date.py\<close> returns the result
  of the first rule that matches, in the order ordinal date, month and year, explicit
  year phrase, bare year. The ordinal rule and the month-and-year rule match when their
  pattern is found and pandas parses the leftmost match; when pandas does not parse it
  the rule is passed over and the later rules decide, whatever stands further right in
  the text. So a text in which pandas parses the leftmost ordinal date yields that date,
  whatever bare year it also contains; \<^verbatim>\<open>March 2020\<close> yields 2020-03-01 when pandas reads
  the match as a date in March 2020; \<^verbatim>\<open>in 1995\<close> yields 1995-01-01.
\<close>

theorem cascade_priority:
  "(is_ascii t \<longrightarrow>
      (\<forall>m dt. re_search ORDINAL_RX (lower t) = Some m \<and> to_datetime L (group0 m) = Some dt \<longrightarrow>
          extract_date_from_text_q4 L (Str t) = Returned (strftime dt))
    \<and> (\<forall>m dt. (\<forall>m1. re_search ORDINAL_RX (lower t) = Some m1 \<longrightarrow> to_datetime L (group0 m1) = None) \<and>
            re_search MONTH_YEAR_RX (lower t) = Some m \<and> to_datetime_format L (group0 m) = Some dt \<longrightarrow>
          extract_date_from_text_q4 L (Str t) = Returned (strftime_month dt))
    \<and> (\<forall>m. (\<forall>m1. re_search ORDINAL_RX (lower t) = Some m1 \<longrightarrow> to_datetime L (group0 m1) = None) \<and>
            (\<forall>m2. re_search MONTH_YEAR_RX (lower t) = Some m2 \<longrightarrow> to_datetime_format L (group0 m2) = None) \<and>
            re_search EXPLICIT_YEAR_RX (lower t) = Some m \<longrightarrow>
          extract_date_from_text_q4 L (Str t) = Returned (group1 m @ ''-01-01''))
    \<and> (\<forall>m. (\<forall>m1. re_search ORDINAL_RX (lower t) = Some m1 \<longrightarrow> to_datetime L (group0 m1) = None) \<and>
            (\<forall>m2. re_search MONTH_YEAR_RX (lower t) = Some m2 \<longrightarrow> to_datetime_format L (group0 m2) = None) \<and>
            re_search EXPLICIT_YEAR_RX (lower t) = None \<and> re_search YEAR_RX (lower t) = Some m \<longrightarrow>
          extract_date_from_text_q4 L (Str t) = Returned (group1 m @ ''-01-01'')))
   \<and> (\<forall>dt. to_datetime_format L ''march 2020'' = Some dt \<and> year dt = 2020 \<and> month dt = 3 \<longrightarrow>
       extract_date_from_text_q4 L (Str ''March 2020'') = Returned ''2020-03-01'')
   \<and> extract_date_from_text_q4 L (Str ''in 1995'') = Returned ''1995-01-01''"
proof (intro conjI allI impI)
  fix m dt
  assume a: "re_search ORDINAL_RX (lower t) = Some m \<and> to_datetime L (group0 m) = Some dt"
  then have "strip t \<noteq> []" using ORDINAL_RX_blank[of t] by auto
  then show "extract_date_from_text_q4 L (Str t) = Returned (strftime dt)"
    using a by (simp add: extract_date_from_text_q4_def ordinal_rule_def)
next
  fix m dt
  assume a: "(\<forall>m1. re_search ORDINAL_RX (lower t) = Some m1 \<longrightarrow> to_datetime L (group0 m1) = None) \<and>
            re_search MONTH_YEAR_RX (lower t) = Some m \<and> to_datetime_format L (group0 m) = Some dt"
  then have ne: "strip t \<noteq> []" using MONTH_YEAR_RX_blank[of t] by auto
  have o: "ordinal_rule L (lower t) = None" using a by (simp add: ordinal_rule_None)
  have "month_year_rule L (lower t) = Some (strftime_month dt)"
    using a by (simp add: month_year_rule_def)
  then show "extract_date_from_text_q4 L (Str t) = Returned (strftime_month dt)"
    using ne o by (simp add: extract_date_from_text_q4_def)
next
  fix m
  assume a: "(\<forall>m1. re_search ORDINAL_RX (lower t) = Some m1 \<longrightarrow> to_datetime L (group0 m1) = None) \<and>
            (\<forall>m2. re_search MONTH_YEAR_RX (lower t) = Some m2 \<longrightarrow> to_datetime_format L (group0 m2) = None) \<and>
            re_search EXPLICIT_YEAR_RX (lower t) = Some m"
  then have ne: "strip t \<noteq> []" using EXPLICIT_YEAR_RX_blank[of t] by auto
  have o: "ordinal_rule L (lower t) = None" using a by (simp add: ordinal_rule_None)
  have my: "month_year_rule L (lower t) = None" using a by (simp add: month_year_rule_None)
  show "extract_date_from_text_q4 L (Str t) = Returned (group1 m @ ''-01-01'')"
    using a ne o my by (simp add: extract_date_from_text_q4_def)
next
  fix m
  assume a: "(\<forall>m1. re_search ORDINAL_RX (lower t) = Some m1 \<longrightarrow> to_datetime L (group0 m1) = None) \<and>
            (\<forall>m2. re_search MONTH_YEAR_RX (lower t) = Some m2 \<longrightarrow> to_datetime_format L (group0 m2) = None) \<and>
            re_search EXPLICIT_YEAR_RX (lower t) = None \<and> re_search YEAR_RX (lower t) = Some m"
  then have ne: "strip t \<noteq> []" using YEAR_RX_blank[of t] by auto
  have o: "ordinal_rule L (lower t) = None" using a by (simp add: ordinal_rule_None)
  have my: "month_year_rule L (lower t) = None" using a by (simp add: month_year_rule_None)
  show "extract_date_from_text_q4 L (Str t) = Returned (group1 m @ ''-01-01'')"
    using a ne o my by (simp add: extract_date_from_text_q4_def)
next
  fix dt
  assume a: "to_datetime_format L ''march 2020'' = Some dt \<and> year dt = 2020 \<and> month dt = 3"
  have o: "ordinal_rule L ''march 2020'' = None"
    by (simp add: ordinal_rule_def march_2020_rules(3))
  have "month_year_rule L ''march 2020'' = Some ''2020-03-01''"
    using a by (simp add: month_year_rule_def march_2020_rules(4) group0_def strftime_month_def
        march_2020_rules(5,6))
  then show "extract_date_from_text_q4 L (Str ''March 2020'') = Returned ''2020-03-01''"
    using o march_2020_rules(1) by (simp add: extract_date_from_text_q4_def march_2020_rules(2))
next
  show "extract_date_from_text_q4 L (Str ''in 1995'') = Returned ''1995-01-01''"
    by (rule in_1995)
qed

text \<open>The theorem at a text with an ordinal date and a bare year, and at one text for each
  of the later rules; in the third text the ordinal pattern is found but pandas does not
  parse the match, and the explicit year phrase decides.\<close>

theorem cascade_priority_witness:
  "is_ascii ''October 3rd, 1995 and 1900''
   \<and> re_search ORDINAL_RX (lower ''October 3rd, 1995 and 1900'') = Some (None, ''october 3rd, 1995'', '' and 1900'')
   \<and> to_datetime demo_libs ''october 3rd, 1995'' = Some (mk_date 1995 10 3)
   \<and> re_search YEAR_RX (lower ''October 3rd, 1995 and 1900'') = Some (Some ''1995'', ''1995'', '' and 1900'')
   \<and> extract_date_from_text_q4 demo_libs (Str ''October 3rd, 1995 and 1900'') = Returned ''1995-10-03''
   \<and> extract_date_from_text_q4 demo_libs (Str ''March 2020'') = Returned ''2020-03-01''
   \<and> re_search ORDINAL_RX (lower ''Founded on March 27, 1634 and rebuilt in 1895'')
        = Some (None, ''march 27, 1634'', '' and rebuilt in 1895'')
   \<and> to_datetime demo_libs ''march 27, 1634'' = None
   \<and> extract_date_from_text_q4 demo_libs (Str ''Founded on March 27, 1634 and rebuilt in 1895'')
        = Returned ''1895-01-01''
   \<and> extract_date_from_text_q4 demo_libs (Str ''built 1887'') = Returned ''1887-01-01''"
proof -
  have td: "to_datetime demo_libs ''october 3rd, 1995'' = Some (mk_date 1995 10 3)"
    by (simp add: demo_libs_def)
  have tn: "to_datetime demo_libs ''march 27, 1634'' = None"
    by (simp add: demo_libs_def)
  have tf: "to_datetime_format demo_libs ''march 2020'' = Some (mk_date 2020 3 1)"
    by (simp add: demo_libs_def)
  note th = cascade_priority[where L = demo_libs]
  have h1: "re_search ORDINAL_RX (lower ''October 3rd, 1995 and 1900'') = Some (None, ''october 3rd, 1995'', '' and 1900'')
              \<and> to_datetime demo_libs (group0 (None, ''october 3rd, 1995'', '' and 1900'')) = Some (mk_date 1995 10 3)"
    using cascade_demo(1) td by (simp add: group0_def)
  have r1: "extract_date_from_text_q4 demo_libs (Str ''October 3rd, 1995 and 1900'') = Returned ''1995-10-03''"
    using th[where t = "''October 3rd, 1995 and 1900''", THEN conjunct1, rule_format, OF cascade_ascii(1),
        THEN conjunct1, rule_format, OF h1]
    by (simp add: strftime_demo(4))
  have h2: "(\<forall>m1. re_search ORDINAL_RX (lower ''March 2020'') = Some m1 \<longrightarrow> to_datetime demo_libs (group0 m1) = None)
       \<and> re_search MONTH_YEAR_RX (lower ''March 2020'') = Some (None, ''march 2020'', [])
       \<and> to_datetime_format demo_libs (group0 (None, ''march 2020'', [])) = Some (mk_date 2020 3 1)"
    using cascade_demo(10,11) tf by (simp add: group0_def)
  have "extract_date_from_text_q4 demo_libs (Str ''March 2020'') = Returned (strftime_month (mk_date 2020 3 1))"
    using th[where t = "''March 2020''", THEN conjunct1, rule_format, OF cascade_ascii(2),
        THEN conjunct2, THEN conjunct1, rule_format, OF h2] .
  then have r2: "extract_date_from_text_q4 demo_libs (Str ''March 2020'') = Returned ''2020-03-01''"
    unfolding cascade_demo(12) .
  have h3: "(\<forall>m1. re_search ORDINAL_RX (lower ''Founded on March 27, 1634 and rebuilt in 1895'') = Some m1
                 \<longrightarrow> to_datetime demo_libs (group0 m1) = None)
       \<and> (\<forall>m2. re_search MONTH_YEAR_RX (lower ''Founded on March 27, 1634 and rebuilt in 1895'') = Some m2
                 \<longrightarrow> to_datetime_format demo_libs (group0 m2) = None)
       \<and> re_search EXPLICIT_YEAR_RX (lower ''Founded on March 27, 1634 and rebuilt in 1895'')
            = Some (Some ''1895'', ''in 1895'', [])"
    using cascade_demo(7,8,9) tn by (simp add: group0_def)
  have r3: "extract_date_from_text_q4 demo_libs (Str ''Founded on March 27, 1634 and rebuilt in 1895'')
              = Returned ''1895-01-01''"
    using th[where t = "''Founded on March 27, 1634 and rebuilt in 1895''", THEN conjunct1, rule_format,
        OF cascade_ascii(3), THEN conjunct2, THEN conjunct2, THEN conjunct1, rule_format, OF h3]
    by (simp add: group1_def)
  have h4: "(\<forall>m1. re_search ORDINAL_RX (lower ''built 1887'') = Some m1 \<longrightarrow> to_datetime demo_libs (group0 m1) = None)
       \<and> (\<forall>m2. re_search MONTH_YEAR_RX (lower ''built 1887'') = Some m2 \<longrightarrow> to_datetime_format demo_libs (group0 m2) = None)
       \<and> re_search EXPLICIT_YEAR_RX (lower ''built 1887'') = None
       \<and> re_search YEAR_RX (lower ''built 1887'') = Some (Some ''1887'', ''1887'', [])"
    using cascade_demo(3,4,5,6) by simp
  have r4: "extract_date_from_text_q4 demo_libs (Str ''built 1887'') = Returned ''1887-01-01''"
    using th[where t = "''built 1887''", THEN conjunct1, rule_format, OF cascade_ascii(4),
        THEN conjunct2, THEN conjunct2, THEN conjunct2, rule_format, OF h4]
    by (simp add: group1_def)
  show ?thesis using cascade_ascii(1) cascade_demo(1,2,7) td tn r1 r2 r3 r4 by simp
qed

text \<open>Claim C7 as stated fails where pandas does not parse the leftmost match of the
  ordinal pattern. The text \<^verbatim>\<open>February 30th, 1995 and March 3rd, 1996\<close> contains the full
  ordinal date 3 March 1996, which pandas parses, and a bare year; but the leftmost match
  of the pattern is \<^verbatim>\<open>february 30th, 1995\<close>, no day of the calendar, the ordinal rule is
  passed over, and the bare-year rule returns 1 January 1995.\<close>

theorem extract_date_from_text_q4_bare_year_wins:
  "is_ascii ''February 30th, 1995 and March 3rd, 1996''
   \<and> re_search ORDINAL_RX (lower ''February 30th, 1995 and March 3rd, 1996'')
        = Some (None, ''february 30th, 1995'', '' and march 3rd, 1996'')
   \<and> to_datetime demo_libs ''february 30th, 1995'' = None
   \<and> re_search ORDINAL_RX '' and march 3rd, 1996'' = Some (None, ''march 3rd, 1996'', [])
   \<and> to_datetime demo_libs ''march 3rd, 1996'' = Some (mk_date 1996 3 3)
   \<and> re_search YEAR_RX (lower ''February 30th, 1995 and March 3rd, 1996'')
        = Some (Some ''1995'', ''1995'', '' and march 3rd, 1996'')
   \<and> extract_date_from_text_q4 demo_libs (Str ''February 30th, 1995 and March 3rd, 1996'')
        = Returned ''1995-01-01''"
proof -
  have a: "re_search ORDINAL_RX (lower ''February 30th, 1995 and March 3rd, 1996'')
        = Some (None, ''february 30th, 1995'', '' and march 3rd, 1996'')" by code_simp
  have b: "to_datetime demo_libs ''february 30th, 1995'' = None" by (simp add: demo_libs_def)
  have c: "re_search ORDINAL_RX '' and march 3rd, 1996'' = Some (None, ''march 3rd, 1996'', [])"
    by code_simp
  have d: "to_datetime demo_libs ''march 3rd, 1996'' = Some (mk_date 1996 3 3)"
    by (simp add: demo_libs_def)
  have e: "re_search YEAR_RX (lower ''February 30th, 1995 and March 3rd, 1996'')
        = Some (Some ''1995'', ''1995'', '' and march 3rd, 1996'')" by code_simp
  have f: "extract_date_from_text_q4 demo_libs (Str ''February 30th, 1995 and March 3rd, 1996'')
        = Returned ''1995-01-01''" by code_simp
  show ?thesis using cascade_ascii(5) a b c d e f by simp
qed

text \<open>
  Claim C8, as amended. In the extractor of \<^verbatim>\<open>verifyparallel.py\<close>, for a text that is not
  blank and for which datefinder reports candidates, all \<^verbatim>\<open>datetime\<close> objects, of which at
  least one has its year in the valid range, the extractor returns the earliest candidate
  whose year lies in the closed interval from \<^verbatim>\<open>MIN_VALID_YEAR\<close> to \<^verbatim>\<open>MAX_VALID_YEAR\<close>.
\<close>

theorem earliest_valid_candidate:
  assumes "strip t \<noteq> []" and "find_dates L t = Returned ds"
    and "\<forall>d\<in>set ds. valid_datetime d"
    and "\<exists>d\<in>set ds. MIN_VALID_YEAR \<le> year d \<and> year d \<le> MAX_VALID_YEAR"
  shows "\<exists>e\<in>set ds. extract_date_from_text L (Str t) = Returned (strftime e) \<and>
           MIN_VALID_YEAR \<le> year e \<and> year e \<le> MAX_VALID_YEAR \<and>
           (\<forall>d\<in>set ds. MIN_VALID_YEAR \<le> year d \<and> year d \<le> MAX_VALID_YEAR \<longrightarrow> dt_key e \<le> dt_key d)"
proof -
  let ?xs = "sort_key dt_key (map naive ds)"
  from assms(3,4) have "\<exists>d\<in>set ?xs. validate_year_in_range (strftime d)"
    by (auto simp: validate_naive)
  then obtain s where s: "first_valid ?xs = Some s"
    using first_valid_None[of ?xs] by (cases "first_valid ?xs") auto
  have "sorted (map dt_key ?xs)" by simp
  from first_valid_sorted[OF this s] obtain e' where e': "e' \<in> set ?xs" "s = strftime e'"
    "validate_year_in_range s"
    "\<forall>d\<in>set ?xs. validate_year_in_range (strftime d) \<longrightarrow> dt_key e' \<le> dt_key d"
    by blast
  from e'(1) obtain e where e: "e \<in> set ds" "e' = naive e" by auto
  have ve: "valid_datetime e" using assms(3) e(1) by simp
  have r: "extract_date_from_text L (Str t) = Returned (strftime e)"
    using assms(1,2) s e'(2) e(2) by (simp add: extract_date_from_text_def strftime_naive)
  have yr: "MIN_VALID_YEAR \<le> year e \<and> year e \<le> MAX_VALID_YEAR"
    using e'(2,3) e(2) ve by (simp add: validate_naive)
  have "\<forall>d\<in>set ds. MIN_VALID_YEAR \<le> year d \<and> year d \<le> MAX_VALID_YEAR \<longrightarrow> dt_key e \<le> dt_key d"
  proof (intro ballI impI)
    fix d assume d: "d \<in> set ds" "MIN_VALID_YEAR \<le> year d \<and> year d \<le> MAX_VALID_YEAR"
    then have "validate_year_in_range (strftime (naive d))" using assms(3) by (simp add: validate_naive)
    moreover have "naive d \<in> set ?xs" using d(1) by simp
    ultimately have "dt_key e' \<le> dt_key (naive d)" using e'(4) by blast
    then show "dt_key e \<le> dt_key d" by (simp add: e(2) dt_key_naive)
  qed
  with r yr e(1) show ?thesis by blast
qed

text \<open>The theorem at a text with the candidates 6 May 1995 and 2 January 1990, in this
  order: the later one comes first in the text, the earlier one is returned.\<close>

theorem earliest_valid_candidate_witness:
  "find_dates demo_libs ''seen on 5/6/95 and 1/2/90'' = Returned [mk_date 1995 5 6, mk_date 1990 1 2]
   \<and> extract_date_from_text demo_libs (Str ''seen on 5/6/95 and 1/2/90'') = Returned ''1990-01-02''"
proof -
  have f: "find_dates demo_libs ''seen on 5/6/95 and 1/2/90'' = Returned [mk_date 1995 5 6, mk_date 1990 1 2]"
    by (simp add: demo_libs_def)
  have v: "\<forall>d\<in>set [mk_date 1995 5 6, mk_date 1990 1 2]. valid_datetime d"
    by (simp add: valid_datetime_def mk_date_def days_in_month_def is_leap_def)
  have e: "\<exists>d\<in>set [mk_date 1995 5 6, mk_date 1990 1 2]. MIN_VALID_YEAR \<le> year d \<and> year d \<le> MAX_VALID_YEAR"
    by (simp add: mk_date_def MIN_VALID_YEAR_def MAX_VALID_YEAR_def)
  have k: "\<not> dt_key (mk_date 1995 5 6) \<le> dt_key (mk_date 1990 1 2)"
    by (simp add: dt_key_def mk_date_def)
  have y: "MIN_VALID_YEAR \<le> year (mk_date 1990 1 2) \<and> year (mk_date 1990 1 2) \<le> MAX_VALID_YEAR"
    by (simp add: mk_date_def MIN_VALID_YEAR_def MAX_VALID_YEAR_def)
  from earliest_valid_candidate[OF strip_demo(4) f v e] obtain e where
    e: "e \<in> set [mk_date 1995 5 6, mk_date 1990 1 2]"
       "extract_date_from_text demo_libs (Str ''seen on 5/6/95 and 1/2/90'') = Returned (strftime e)"
       "\<forall>d\<in>set [mk_date 1995 5 6, mk_date 1990 1 2].
           MIN_VALID_YEAR \<le> year d \<and> year d \<le> MAX_VALID_YEAR \<longrightarrow> dt_key e \<le> dt_key d"
    by blast
  have "e = mk_date 1990 1 2" using e(1,3) k y by auto
  then show ?thesis using f e(2) strftime_demo(3) by simp
qed

text \<open>Claim C8 as stated fails on the extractor of \<^verbatim>\<open>step 4c date.py\<close>, whose last rule
  returns the first candidate datefinder reports: for the same text, which none of the
  four patterns matches, it returns 6 May 1995 although 2 January 1990 is an earlier
  candidate with a year in the valid range.\<close>

theorem extract_date_from_text_q4_first_candidate:
  "find_dates demo_libs (lower ''seen on 5/6/95 and 1/2/90'') = Returned [mk_date 1995 5 6, mk_date 1990 1 2]
   \<and> extract_date_from_text_q4 demo_libs (Str ''seen on 5/6/95 and 1/2/90'') = Returned ''1995-05-06''
   \<and> strftime (mk_date 1990 1 2) = ''1990-01-02''
   \<and> validate_year_in_range ''1990-01-02''
   \<and> dt_key (mk_date 1990 1 2) < dt_key (mk_date 1995 5 6)"
proof -
  have l: "lower ''seen on 5/6/95 and 1/2/90'' = ''seen on 5/6/95 and 1/2/90''" by code_simp
  have f: "find_dates demo_libs ''seen on 5/6/95 and 1/2/90'' = Returned [mk_date 1995 5 6, mk_date 1990 1 2]"
    by (simp add: demo_libs_def)
  have q: "extract_date_from_text_q4 demo_libs (Str ''seen on 5/6/95 and 1/2/90'') = Returned ''1995-05-06''"
    by code_simp
  have v: "validate_year_in_range ''1990-01-02''" by code_simp
  have k: "dt_key (mk_date 1990 1 2) < dt_key (mk_date 1995 5 6)"
    by (simp add: dt_key_def mk_date_def)
  show ?thesis using l f q v k strftime_demo(3) by simp
qed

text \<open>
  Claim C9. The map a parallel lookup returns has an entry for every submitted key and
  for no other. The entry of a key is the result its lookup returned, or the default date
  if its lookup raised; the lookup is the one made in the state the tasks before it left
  (for a key submitted more than once, the last one). A lookup that raises changes no
  other key's entry and does not end the batch. The two Wikipedia lookups themselves
  never raise: when every search raises, or every page does, they return the default
  date for a key that is not in the cache.
\<close>

theorem parallel_lookup_isolates_failures:
  "dom (fst (parallel_lookup locations lookup_func s)) = set locations
   \<and> (\<forall>pre k post. locations = pre @ k # post \<and> k \<notin> set post \<longrightarrow>
         fst (parallel_lookup locations lookup_func s) k
           = Some (case fst (lookup_func k (snd (parallel_lookup pre lookup_func s))) of
                     Raised \<Rightarrow> DEFAULT_DATE
                   | Returned date_str \<Rightarrow> date_str))
   \<and> (\<forall>(c :: 'w state) k. wiki_cache c k = None \<and>
              ((\<forall>q w. fst (search W q w) = Raised) \<or> (\<forall>t w. fst (page W t w) = Raised)) \<longrightarrow>
         fst (narrow_wikipedia_lookup_one L W k c) = DEFAULT_DATE \<and>
         fst (broad_wikipedia_lookup_one L W k c) = DEFAULT_DATE)"
proof (intro conjI allI impI)
  show "dom (fst (parallel_lookup locations lookup_func s)) = set locations"
    by (simp add: parallel_lookup_def run_tasks_dom)
next
  fix c :: "'w state" and k
  assume "wiki_cache c k = None \<and>
              ((\<forall>q w. fst (search W q w) = Raised) \<or> (\<forall>t w. fst (page W t w) = Raised))"
  then show "fst (narrow_wikipedia_lookup_one L W k c) = DEFAULT_DATE"
    and "fst (broad_wikipedia_lookup_one L W k c) = DEFAULT_DATE"
    using lookups_fail_default[of c k W L] by blast+
next
  fix pre k post
  assume a: "locations = pre @ k # post \<and> k \<notin> set post"
  obtain rm s1 where pre: "run_tasks lookup_func pre (Map.empty, s) = (rm, s1)"
    by (cases "run_tasks lookup_func pre (Map.empty, s)") auto
  obtain r s2 where call: "lookup_func k s1 = (r, s2)"
    by (cases "lookup_func k s1") auto
  have "fst (parallel_lookup locations lookup_func s) k
          = fst (run_tasks lookup_func post (rm(k \<mapsto> (case r of Raised \<Rightarrow> DEFAULT_DATE | Returned d \<Rightarrow> d)), s2)) k"
    using a pre call by (cases r) (simp_all add: parallel_lookup_def run_tasks_append)
  also have "\<dots> = Some (case r of Raised \<Rightarrow> DEFAULT_DATE | Returned d \<Rightarrow> d)"
    using a by (simp add: run_tasks_other)
  finally show "fst (parallel_lookup locations lookup_func s) k
           = Some (case fst (lookup_func k (snd (parallel_lookup pre lookup_func s))) of
                     Raised \<Rightarrow> DEFAULT_DATE
                   | Returned date_str \<Rightarrow> date_str)"
    using pre call by (simp add: parallel_lookup_def)
qed

text \<open>The theorem at three keys, the lookup of the second of which raises, and at a
  Wikipedia that is down.\<close>

theorem parallel_lookup_isolates_failures_witness:
  "dom (fst (parallel_lookup [''Old Mill Road'', ''Gallows Hill Cemetery'', ''Hangman Creek Bridge''] flaky_lookup ()))
     = {''Old Mill Road'', ''Gallows Hill Cemetery'', ''Hangman Creek Bridge''}
   \<and> fst (flaky_lookup ''Gallows Hill Cemetery'' ()) = Raised
   \<and> fst (parallel_lookup [''Old Mill Road'', ''Gallows Hill Cemetery'', ''Hangman Creek Bridge''] flaky_lookup ())
        ''Gallows Hill Cemetery'' = Some DEFAULT_DATE
   \<and> fst (parallel_lookup [''Old Mill Road'', ''Gallows Hill Cemetery'', ''Hangman Creek Bridge''] flaky_lookup ())
        ''Hangman Creek Bridge'' = Some ''1901-02-03''
   \<and> wiki_cache empty_cache ''Old Mill Road'' = None
   \<and> (\<forall>q w. fst (search down_wikipedia q w) = Raised)
   \<and> fst (narrow_wikipedia_lookup_one demo_libs down_wikipedia ''Old Mill Road'' empty_cache) = DEFAULT_DATE
   \<and> fst (broad_wikipedia_lookup_one demo_libs down_wikipedia ''Old Mill Road'' empty_cache) = DEFAULT_DATE"
proof -
  let ?locs = "[''Old Mill Road'', ''Gallows Hill Cemetery'', ''Hangman Creek Bridge'']"
  note th = parallel_lookup_isolates_failures[where locations = ?locs and lookup_func = flaky_lookup
      and s = "()" and W = down_wikipedia and L = demo_libs]
  have e: "wiki_cache empty_cache ''Old Mill Road'' = None" by (simp add: empty_cache_def)
  have f: "\<forall>q w. fst (search down_wikipedia q w) = Raised" by (simp add: down_wikipedia_def)
  have g: "wiki_cache empty_cache ''Old Mill Road'' = None \<and>
             ((\<forall>q w. fst (search down_wikipedia q w) = Raised)
              \<or> (\<forall>t w. fst (page down_wikipedia t w) = Raised))"
    using e f by simp
  note fail = th[THEN conjunct2, THEN conjunct2, rule_format, OF g]
  have d: "dom (fst (parallel_lookup ?locs flaky_lookup ())) = set ?locs" using th by blast
  have a: "?locs = [''Old Mill Road''] @ ''Gallows Hill Cemetery'' # [''Hangman Creek Bridge'']
             \<and> ''Gallows Hill Cemetery'' \<notin> set [''Hangman Creek Bridge'']" by simp
  have b: "?locs = [''Old Mill Road'', ''Gallows Hill Cemetery''] @ ''Hangman Creek Bridge'' # []
             \<and> ''Hangman Creek Bridge'' \<notin> set []" by simp
  have ra: "fst (parallel_lookup ?locs flaky_lookup ()) ''Gallows Hill Cemetery'' = Some DEFAULT_DATE"
    using th[THEN conjunct2, THEN conjunct1, rule_format, OF a] by (simp add: flaky_lookup_def)
  have rb: "fst (parallel_lookup ?locs flaky_lookup ()) ''Hangman Creek Bridge'' = Some ''1901-02-03''"
    using th[THEN conjunct2, THEN conjunct1, rule_format, OF b] by (simp add: flaky_lookup_def)
  show ?thesis using d ra rb e f fail by (simp add: flaky_lookup_def)
qed

text \<open>
  Claim C10. Each lookup, narrow or broad, leaves its result, a date or the default date,
  in the cache under its key; a second call of the same lookup with the same key returns
  the value the first call returned, with whatever libraries and external source and in
  whatever state of the world the second call is made.
\<close>

theorem lookup_idempotent:
  "wiki_cache (snd (narrow_wikipedia_lookup_one L W k s)) k = Some (fst (narrow_wikipedia_lookup_one L W k s))
   \<and> fst (narrow_wikipedia_lookup_one L' W' k ((snd (narrow_wikipedia_lookup_one L W k s))\<lparr>world := w'\<rparr>))
       = fst (narrow_wikipedia_lookup_one L W k s)
   \<and> wiki_cache (snd (broad_wikipedia_lookup_one L W k s)) k = Some (fst (broad_wikipedia_lookup_one L W k s))
   \<and> fst (broad_wikipedia_lookup_one L' W' k ((snd (broad_wikipedia_lookup_one L W k s))\<lparr>world := w'\<rparr>))
       = fst (broad_wikipedia_lookup_one L W k s)"
proof -
  have n: "wiki_cache ((snd (narrow_wikipedia_lookup_one L W k s))\<lparr>world := w'\<rparr>) k
             = Some (fst (narrow_wikipedia_lookup_one L W k s))"
    by (simp add: narrow_stores)
  have b: "wiki_cache ((snd (broad_wikipedia_lookup_one L W k s))\<lparr>world := w'\<rparr>) k
             = Some (fst (broad_wikipedia_lookup_one L W k s))"
    by (simp add: broad_stores)
  show ?thesis
    by (simp add: narrow_stores broad_stores narrow_hit[OF n] broad_hit[OF b])
qed

end
